theory Spec2Isabelle
  imports Complex_Main
begin

section \<open>Strings and numbers of the host language\<close>

text \<open>
  Strings are modelled as \<^typ>\<open>string\<close> (lists of 8-bit characters), which covers the
  ASCII identifiers, URLs and header values the service handles. Integral numbers
  (timestamps in milliseconds, counts, HTTP status codes) are \<^typ>\<open>int\<close> or \<^typ>\<open>nat\<close>;
  they stay far below \<open>2^53\<close>, where the host's doubles are exact. Prices and other
  fractional numbers are \<^typ>\<open>rat\<close>: the exact value of the double that holds them.
  \<open>toLowerCase\<close> and \<open>toUpperCase\<close> change the ASCII letters and leave every other
  character as it is.
\<close>

definition isUpper :: "char \<Rightarrow> bool" where
  "isUpper c = (let n = (of_char c :: nat) in 65 \<le> n \<and> n \<le> 90)"

definition isLower :: "char \<Rightarrow> bool" where
  "isLower c = (let n = (of_char c :: nat) in 97 \<le> n \<and> n \<le> 122)"

definition isDigit :: "char \<Rightarrow> bool" where
  "isDigit c = (let n = (of_char c :: nat) in 48 \<le> n \<and> n \<le> 57)"

text \<open>The class \<open>\w\<close> of the regular expressions: letters, digits and the underscore.\<close>

definition isWordChar :: "char \<Rightarrow> bool" where
  "isWordChar c = (isUpper c \<or> isLower c \<or> isDigit c \<or> c = CHR ''_'')"

text \<open>White space as \<open>trim\<close> and \<open>parseInt\<close> strip it (tab, LF, VT, FF, CR, space).\<close>

definition isWhiteSpace :: "char \<Rightarrow> bool" where
  "isWhiteSpace c = ((of_char c :: nat) \<in> {9, 10, 11, 12, 13, 32})"

definition lowerChar :: "char \<Rightarrow> char" where
  "lowerChar c = (if isUpper c then char_of ((of_char c :: nat) + 32) else c)"

definition upperChar :: "char \<Rightarrow> char" where
  "upperChar c = (if isLower c then char_of ((of_char c :: nat) - 32) else c)"

definition toLowerCase :: "string \<Rightarrow> string" where
  "toLowerCase s = map lowerChar s"

definition toUpperCase :: "string \<Rightarrow> string" where
  "toUpperCase s = map upperChar s"

definition trim :: "string \<Rightarrow> string" where
  "trim s = rev (dropWhile isWhiteSpace (rev (dropWhile isWhiteSpace s)))"

text \<open>\<open>s.replace('-', '_')\<close> with a string pattern replaces the first occurrence only.\<close>

fun replaceFirst :: "char \<Rightarrow> char \<Rightarrow> string \<Rightarrow> string" where
  "replaceFirst a b [] = []"
| "replaceFirst a b (c # cs) = (if c = a then b # cs else c # replaceFirst a b cs)"

definition digitChar :: "nat \<Rightarrow> char" where
  "digitChar d = ''0123456789'' ! (d mod 10)"

text \<open>The decimal digits of a natural number, as number-to-string conversion prints
  them (\<open>0\<close> prints as \<open>''0''\<close>).\<close>

fun digits :: "nat \<Rightarrow> string" where
  "digits n = (if n < 10 then [digitChar n] else digits (n div 10) @ [digitChar n])"

declare digits.simps [simp del]

definition showInt :: "int \<Rightarrow> string" where
  "showInt i = (if i < 0 then CHR ''-'' # digits (nat (- i)) else digits (nat i))"

subsection \<open>Doubles\<close>

fun bitLength :: "nat \<Rightarrow> nat" where
  "bitLength n = (if n = 0 then 0 else Suc (bitLength (n div 2)))"

declare bitLength.simps [simp del]

text \<open>The binary exponent \<open>e\<close> of a positive rational \<open>a\<close>: \<open>2^e \<le> a < 2^(e+1)\<close>.\<close>

definition binaryExponent :: "rat \<Rightarrow> int" where
  "binaryExponent a =
     (let (p, q) = quotient_of a;
          d = int (bitLength (nat p)) - int (bitLength (nat q))
      in if 2 powi d \<le> a then d else d - 1)"

definition roundHalfEven :: "rat \<Rightarrow> int" where
  "roundHalfEven r =
     (let f = \<lfloor>r\<rfloor>; d = r - of_int f
      in if d < 1 / 2 then f else if 1 / 2 < d then f + 1
         else if even f then f else f + 1)"

text \<open>
  The double nearest to a rational (round to nearest, ties to even; 53-bit significand,
  subnormals below \<open>2^-1022\<close>). It gives the value of a decimal literal of the source
  and the result of a floating-point division. Overflow to infinity (results of
  \<open>2^1024\<close> and more) is outside the model, like NaN.
\<close>

definition binary64 :: "rat \<Rightarrow> rat" where
  "binary64 x =
     (if x = 0 then 0
      else let a = \<bar>x\<bar>;
               e = max (binaryExponent a) (- 1022);
               u = 2 powi (e - 52)
           in sgn x * of_int (roundHalfEven (a / u)) * u)"

text \<open>
  \<open>Number.prototype.toFixed(f)\<close> for \<open>f \<le> 100\<close>: the sign is split off, \<open>n\<close> is the integer
  for which \<open>n / 10^f\<close> is closest to the exact value of \<open>x\<close> (the larger \<open>n\<close> on a tie),
  and its digits are padded with zeros to at least \<open>f + 1\<close> places before the decimal
  point is put in. From \<open>10^21\<close> on the host prints the number in exponent notation
  instead; that branch is not modelled and gives \<open>None\<close>.
\<close>

definition toFixed :: "nat \<Rightarrow> rat \<Rightarrow> string option" where
  "toFixed f x0 =
     (let s = (if x0 < 0 then ''-'' else '''');
          x = (if x0 < 0 then - x0 else x0)
      in if 10 ^ 21 \<le> x then None
         else
           let n = nat \<lfloor>x * 10 ^ f + 1 / 2\<rfloor>;
               m = digits n;
               m = (if f \<noteq> 0
                    then let k = length m;
                             m = (if k \<le> f then replicate (f + 1 - k) CHR ''0'' @ m else m);
                             k = (if k \<le> f then f + 1 else k)
                         in take (k - f) m @ ''.'' @ drop (k - f) m
                    else m)
           in Some (s @ m))"

section \<open>Format helpers\<close>

text \<open>A value passed where the source expects a \<open>number\<close>; the helpers test for
  \<open>undefined\<close> and \<open>null\<close> first.\<close>

datatype number_arg = Undefined | Null | Number rat

text \<open>The length of the run of digits a string starts with.\<close>

definition digitRun :: "string \<Rightarrow> nat" where
  "digitRun s = length (takeWhile isDigit s)"

text \<open>
  \<open>s.replace(/\B(?=(\d{3})+(?!\d))/g, ',')\<close>: a comma is put in at every position that is
  not a word boundary (the characters before and after it are both word characters or
  both not, the ends of the string counting as non-word) and that is followed by a
  positive multiple of three digits and then no digit. \<open>prev\<close> is the character before
  the position, \<open>None\<close> at the start.
\<close>

fun insertCommas :: "char option \<Rightarrow> string \<Rightarrow> string" where
  "insertCommas prev [] = []"
| "insertCommas prev (c # cs) =
     (let prevWord = (case prev of None \<Rightarrow> False | Some p \<Rightarrow> isWordChar p);
          r = digitRun (c # cs)
      in (if prevWord = isWordChar c \<and> 0 < r \<and> r mod 3 = 0 then '','' else '''')
         @ c # insertCommas (Some c) cs)"

definition formatPrice :: "number_arg \<Rightarrow> string option" where
  "formatPrice price =
     (case price of
        Undefined \<Rightarrow> Some ''$0''
      | Null \<Rightarrow> Some ''$0''
      | Number p \<Rightarrow>
          if 1000 \<le> p then map_option (\<lambda>t. ''$'' @ insertCommas None t) (toFixed 0 p)
          else if 1 \<le> p then map_option (\<lambda>t. ''$'' @ t) (toFixed 2 p)
          else map_option (\<lambda>t. ''$'' @ t) (toFixed 6 p))"

definition formatPriceChange :: "number_arg \<Rightarrow> string option" where
  "formatPriceChange change =
     (case change of
        Undefined \<Rightarrow> Some ''0%''
      | Null \<Rightarrow> Some ''0%''
      | Number c \<Rightarrow>
          let sign = (if 0 \<le> c then ''+'' else '''')
          in map_option (\<lambda>t. sign @ t @ ''%'') (toFixed 2 c))"

definition formatCompactNumber :: "number_arg \<Rightarrow> string option" where
  "formatCompactNumber num =
     (case num of
        Undefined \<Rightarrow> Some ''0''
      | Null \<Rightarrow> Some ''0''
      | Number n \<Rightarrow>
          if 10 ^ 12 \<le> n then map_option (\<lambda>t. t @ ''T'') (toFixed 2 (binary64 (n / 10 ^ 12)))
          else if 10 ^ 9 \<le> n then map_option (\<lambda>t. t @ ''B'') (toFixed 2 (binary64 (n / 10 ^ 9)))
          else if 10 ^ 6 \<le> n then map_option (\<lambda>t. t @ ''M'') (toFixed 2 (binary64 (n / 10 ^ 6)))
          else if 10 ^ 3 \<le> n then map_option (\<lambda>t. t @ ''K'') (toFixed 2 (binary64 (n / 10 ^ 3)))
          else toFixed 2 n)"

section \<open>Data model\<close>

text \<open>
  \<open>CoinData\<close>, the asset quote. The field \<open>id\<close> of the source is \<open>coin_id\<close> here, since
  \<open>id\<close> is the identity function of HOL. \<open>CoinGeckoMarketData\<close> has the same fields and
  is the same record. The optional \<open>high_24h\<close> and \<open>low_24h\<close> are options.
\<close>

record CoinData =
  coin_id :: string
  symbol :: string
  name :: string
  image :: string
  current_price :: rat
  price_change_percentage_24h :: rat
  market_cap :: rat
  market_cap_rank :: rat
  total_volume :: rat
  high_24h :: "rat option"
  low_24h :: "rat option"

text \<open>\<open>MoonPayCurrency\<close>, its fields prefixed with \<open>mp_\<close>; every field but \<open>code\<close> and \<open>name\<close> is optional.\<close>

record MoonPayCurrency =
  mp_code :: string
  mp_name :: string
  mp_logoUrl :: "string option"
  mp_price :: "rat option"
  mp_change24Hour :: "rat option"
  mp_marketCap :: "rat option"
  mp_rank :: "rat option"
  mp_volume24Hour :: "rat option"
  mp_btcRate :: "rat option"

text \<open>\<open>SearchResultItem\<close>, with its optional fields as options.\<close>

record SearchResultItem =
  sr_id :: string
  sr_name :: string
  sr_symbol :: string
  thumb :: "string option"
  small :: "string option"
  sr_market_cap_rank :: "rat option"

text \<open>
  \<open>CachedData<T>\<close>: a payload and the time it was stored. The payloads modelled are the
  lists that \<open>fetchTopCoins\<close> stores under its keys \<open>top_coins_...\<close>; the entries that
  \<open>fetchCoinData\<close> and \<open>fetchTrendingCoins\<close> store live under keys of other forms
  (\<open>coin_...\<close>, \<open>trending_coins\<close>).
\<close>

record CachedData =
  data :: "CoinData list"
  timestamp :: int

text \<open>
  Everything the module does to the outside world, in the order it happens: a request
  to the primary provider (CoinGecko: its API through \<open>axios.get\<close> and \<open>fetch\<close>), a
  request to the secondary provider (MoonPay), the preload of an image
  (\<open>new Image().src = url\<close>), and a wait (\<open>setTimeout\<close>, in milliseconds).
\<close>

datatype effect = Primary string | Secondary string | Preload string | Sleep nat

section \<open>The cache: class \<open>CryptoCache\<close>\<close>

text \<open>
  The private fields of the one \<open>CryptoCache\<close> object, and next to them the log
  \<open>effects\<close> of the module's requests and waits. \<open>cacheExpiry\<close> and \<open>apiCooldown\<close> are
  never assigned after construction and are constants here.
\<close>

record CryptoCache =
  imageCache :: "string \<rightharpoonup> string"
  apiCache :: "string \<rightharpoonup> CachedData"
  apiCallAttempts :: "string \<rightharpoonup> int"
  rateLimitedUntil :: int
  coinBlacklist :: "string set"
  effects :: "effect list"

definition cacheExpiry :: int where
  "cacheExpiry = 5 * 60 * 1000"

definition apiCooldown :: int where
  "apiCooldown = 60 * 1000"

definition API_BACKOFF_MS :: nat where
  "API_BACKOFF_MS = 2000"

definition MAX_RETRIES :: nat where
  "MAX_RETRIES = 3"

text \<open>The cache as \<open>new CryptoCache()\<close> makes it.\<close>

definition newCache :: CryptoCache where
  "newCache = \<lparr> imageCache = Map.empty, apiCache = Map.empty, apiCallAttempts = Map.empty,
                rateLimitedUntil = 0, coinBlacklist = {}, effects = [] \<rparr>"

definition emit :: "effect \<Rightarrow> CryptoCache \<Rightarrow> CryptoCache" where
  "emit e c = c\<lparr>effects := effects c @ [e]\<rparr>"

definition setImageUrl :: "string \<Rightarrow> string \<Rightarrow> CryptoCache \<Rightarrow> CryptoCache" where
  "setImageUrl coinId url c = c\<lparr>imageCache := (imageCache c)(toLowerCase coinId \<mapsto> url)\<rparr>"

definition getImageUrl :: "string \<Rightarrow> CryptoCache \<Rightarrow> string option" where
  "getImageUrl coinId c = imageCache c (toLowerCase coinId)"

text \<open>The methods that read the clock take the value of \<open>Date.now()\<close> as \<open>now\<close>.\<close>

definition setApiData :: "int \<Rightarrow> string \<Rightarrow> CoinData list \<Rightarrow> CryptoCache \<Rightarrow> CryptoCache" where
  "setApiData now key d c = c\<lparr>apiCache := (apiCache c)(key \<mapsto> \<lparr>data = d, timestamp = now\<rparr>)\<rparr>"

definition getApiData :: "int \<Rightarrow> string \<Rightarrow> CryptoCache \<Rightarrow> CoinData list option" where
  "getApiData now key c =
     (case apiCache c key of
        Some cached \<Rightarrow> if now - timestamp cached < cacheExpiry then Some (data cached) else None
      | None \<Rightarrow> None)"

definition isRateLimited :: "int \<Rightarrow> CryptoCache \<Rightarrow> bool" where
  "isRateLimited now c = (now < rateLimitedUntil c)"

text \<open>The result of \<open>parseInt\<close>: an integer or NaN.\<close>

datatype jsint = NaN | Finite int

text \<open>
  \<open>setRateLimited(isLimited, waitTimeSeconds?)\<close>; the optional argument is \<open>None\<close> when
  it is left out. A wait time that is left out, zero or NaN is falsy and gives the
  default of five minutes.
\<close>

definition setRateLimited :: "int \<Rightarrow> bool \<Rightarrow> jsint option \<Rightarrow> CryptoCache \<Rightarrow> CryptoCache" where
  "setRateLimited now isLimited waitTimeSeconds c =
     (if isLimited
      then let waitTimeMs = (case waitTimeSeconds of
                               Some (Finite w) \<Rightarrow> if w \<noteq> 0 then w * 1000 else 5 * 60 * 1000
                             | Some NaN \<Rightarrow> 5 * 60 * 1000
                             | None \<Rightarrow> 5 * 60 * 1000)
           in c\<lparr>rateLimitedUntil := now + waitTimeMs\<rparr>
      else c\<lparr>rateLimitedUntil := 0\<rparr>)"

definition addToBlacklist :: "string \<Rightarrow> CryptoCache \<Rightarrow> CryptoCache" where
  "addToBlacklist coinId c = c\<lparr>coinBlacklist := insert (toLowerCase coinId) (coinBlacklist c)\<rparr>"

definition isBlacklisted :: "string \<Rightarrow> CryptoCache \<Rightarrow> bool" where
  "isBlacklisted coinId c = (toLowerCase coinId \<in> coinBlacklist c)"

text \<open>In \<open>!lastAttempt\<close> a recorded time of \<open>0\<close> is falsy like a missing one.\<close>

definition shouldTryApiCall :: "int \<Rightarrow> string \<Rightarrow> CryptoCache \<Rightarrow> bool" where
  "shouldTryApiCall now coinId c =
     (if isRateLimited now c \<or> isBlacklisted (toLowerCase coinId) c then False
      else case apiCallAttempts c (toLowerCase coinId) of
             None \<Rightarrow> True
           | Some lastAttempt \<Rightarrow> lastAttempt = 0 \<or> now - lastAttempt > apiCooldown)"

definition markApiCallAttempt :: "int \<Rightarrow> string \<Rightarrow> CryptoCache \<Rightarrow> CryptoCache" where
  "markApiCallAttempt now coinId c =
     c\<lparr>apiCallAttempts := (apiCallAttempts c)(toLowerCase coinId \<mapsto> now)\<rparr>"

text \<open>\<open>clearExpired\<close> deletes the entries strictly older than the expiry.\<close>

definition clearExpired :: "int \<Rightarrow> CryptoCache \<Rightarrow> CryptoCache" where
  "clearExpired now c =
     c\<lparr>apiCache := (\<lambda>key. case apiCache c key of
                               Some v \<Rightarrow> if now - timestamp v > cacheExpiry then None else Some v
                             | None \<Rightarrow> None)\<rparr>"

section \<open>Image resolution: \<open>getCryptoImageUrl\<close>\<close>

definition DEFAULT_PLACEHOLDER :: string where
  "DEFAULT_PLACEHOLDER = ''/public/placeholder.svg''"

text \<open>
  The two tables are object literals of the source, modelled by their own entries (the
  properties an object inherits, such as \<open>constructor\<close>, are no coin identifiers and are
  left out). A lookup \<open>table[coinId]\<close> that hits yields a non-empty string or an object,
  which is truthy.
\<close>

definition localImageMap :: "string \<rightharpoonup> string" where
  "localImageMap = map_of
     [(''btc'', ''/src/images/crypto/bitcoin.png''),
      (''eth'', ''/src/images/crypto/ethereum.png''),
      (''sol'', ''/src/images/crypto/solana.png''),
      (''usdc'', ''/src/images/crypto/usdc.png''),
      (''usdt'', ''/src/images/crypto/tether.png''),
      (''bnb'', ''/src/images/crypto/binance.png''),
      (''xrp'', ''/src/images/crypto/xrp.png''),
      (''ada'', ''/src/images/crypto/cardano.png''),
      (''doge'', ''/src/images/crypto/dogecoin.png''),
      (''dot'', ''/src/images/crypto/polkadot.png''),
      (''link'', ''/src/images/crypto/chainlink.png''),
      (''avax'', ''/src/images/crypto/avalanche.png''),
      (''shib'', ''/src/images/crypto/shiba.png''),
      (''bitcoin'', ''/src/images/crypto/bitcoin.png''),
      (''ethereum'', ''/src/images/crypto/ethereum.png''),
      (''solana'', ''/src/images/crypto/solana.png''),
      (''usd-coin'', ''/src/images/crypto/usdc.png''),
      (''tether'', ''/src/images/crypto/tether.png''),
      (''binancecoin'', ''/src/images/crypto/binance.png''),
      (''ripple'', ''/src/images/crypto/xrp.png''),
      (''cardano'', ''/src/images/crypto/cardano.png''),
      (''dogecoin'', ''/src/images/crypto/dogecoin.png''),
      (''polkadot'', ''/src/images/crypto/polkadot.png''),
      (''chainlink'', ''/src/images/crypto/chainlink.png''),
      (''avalanche-2'', ''/src/images/crypto/avalanche.png''),
      (''shiba-inu'', ''/src/images/crypto/shiba.png''),
      (''wrapped-bitcoin'', ''/src/images/crypto/bitcoin.png''),
      (''staked-ether'', ''/src/images/crypto/ethereum.png''),
      (''wrapped-steth'', ''/src/images/crypto/ethereum.png'')]"

definition knownImageMapping :: "string \<rightharpoonup> nat \<times> string" where
  "knownImageMapping = map_of
     [(''bitcoin'', (1, ''bitcoin'')),
      (''ethereum'', (279, ''ethereum'')),
      (''tether'', (325, ''tether'')),
      (''binancecoin'', (825, ''binance-coin'')),
      (''ripple'', (44, ''xrp'')),
      (''solana'', (16116, ''solana'')),
      (''cardano'', (2010, ''cardano'')),
      (''staked-ether'', (8085, ''staked-ether'')),
      (''dogecoin'', (5, ''dogecoin'')),
      (''tron'', (1958, ''tron'')),
      (''polkadot'', (6636, ''polkadot'')),
      (''chainlink'', (1975, ''chainlink'')),
      (''wrapped-bitcoin'', (3717, ''wrapped-bitcoin'')),
      (''shiba-inu'', (5994, ''shiba-inu'')),
      (''avalanche-2'', (12559, ''avalanche-2'')),
      (''uniswap'', (12504, ''uniswap'')),
      (''stellar'', (512, ''stellar''))]"

definition problemCoins :: "string list" where
  "problemCoins =
     [''fartcoin'', ''zerebro'', ''grass'', ''pepe'', ''official-trump'', ''dogwifcoin'', ''deep'',
      ''pi-network'', ''the-open-network'', ''leo-token'', ''mantra-dao'', ''zora'', ''sui'',
      ''ondo-finance'']"

definition apiCoinUrl :: "string \<Rightarrow> string" where
  "apiCoinUrl coinId =
     ''https://pro-api.coingecko.com/api/v3/coins/'' @ coinId @
     ''?localization=false&tickers=false&market_data=false&community_data=false&developer_data=false&sparkline=false''"

definition patternUrl :: "string \<Rightarrow> string" where
  "patternUrl coinId =
     ''https://assets.coingecko.com/coins/images/1000/small/'' @ coinId @ ''.png?1684385264''"

definition fallbackUrl :: "string \<Rightarrow> string" where
  "fallbackUrl coinId =
     ''https://assets.coingecko.com/coins/images/search_fallback/'' @ coinId @ ''.png''"

definition altFallbackUrl :: "string \<Rightarrow> string" where
  "altFallbackUrl coinId =
     ''https://assets.coingecko.com/coins/images/search_fallback/'' @
     replaceFirst CHR ''-'' CHR ''_'' coinId @ ''.png''"

definition apostrophe :: string where
  "apostrophe = [char_of (39::nat)]"

definition svgPlaceholder :: "string \<Rightarrow> string" where
  "svgPlaceholder coinId =
     (let letter = toUpperCase (take 1 coinId); q = apostrophe
      in ''data:image/svg+xml,%3Csvg xmlns='' @ q @ ''http://www.w3.org/2000/svg'' @ q @
         '' width='' @ q @ ''32'' @ q @ '' height='' @ q @ ''32'' @ q @
         '' viewBox='' @ q @ ''0 0 32 32'' @ q @ ''%3E%3Ccircle cx='' @ q @ ''16'' @ q @
         '' cy='' @ q @ ''16'' @ q @ '' r='' @ q @ ''16'' @ q @ '' fill='' @ q @ ''%23555'' @ q @
         ''/%3E%3Ctext x='' @ q @ ''16'' @ q @ '' y='' @ q @ ''22'' @ q @
         '' font-size='' @ q @ ''18'' @ q @ '' text-anchor='' @ q @ ''middle'' @ q @
         '' fill='' @ q @ ''white'' @ q @ ''%3E'' @ letter @ ''%3C/text%3E%3C/svg%3E'')"

subsection \<open>\<open>parseInt\<close>\<close>

definition digitValue :: "char \<Rightarrow> nat" where
  "digitValue c =
     (if isDigit c then of_char c - 48
      else if isLower c then of_char c - 87
      else if isUpper c then of_char c - 55
      else 36)"

text \<open>
  \<open>parseInt(s)\<close> without a radix: leading white space and one sign are dropped, a prefix
  \<open>0x\<close> or \<open>0X\<close> selects radix 16, and the longest run of digits of the radix is read;
  no digit at all gives NaN.
\<close>

definition parseInt :: "string \<Rightarrow> jsint" where
  "parseInt s =
     (let S = dropWhile isWhiteSpace s;
          negative = (take 1 S = ''-'');
          S = (if take 1 S = ''+'' \<or> take 1 S = ''-'' then drop 1 S else S);
          hex = (take 2 S = ''0x'' \<or> take 2 S = ''0X'');
          S = (if hex then drop 2 S else S);
          R = (if hex then 16 else 10);
          Z = takeWhile (\<lambda>c. digitValue c < R) S
      in if Z = [] then NaN
         else Finite ((if negative then - 1 else 1) *
                      int (foldl (\<lambda>acc c. acc * R + digitValue c) 0 Z)))"

subsection \<open>The detail lookup \<open>tryFetchCoinData\<close>\<close>

text \<open>
  What \<open>await fetch(apiCoinUrl)\<close> comes back with: the promise is rejected, or there is
  a response with its status, its header \<open>x-ratelimit-reset\<close> (if any) and its body.
  The body either fails to parse as JSON or gives \<open>data.image.small\<close>, \<open>None\<close> when
  \<open>data\<close>, \<open>data.image\<close> or the field itself is missing.
\<close>

datatype detail_body = Unparseable | ImageSmall "string option"

datatype fetch_result = Rejected | Response nat "string option" detail_body

text \<open>
  \<open>tryFetchCoinData\<close> is an async function: the call runs it up to its \<open>await\<close>, and the
  rest runs when the response is there. \<open>tryFetchCoinData_start\<close> is the first part,
  \<open>tryFetchCoinData_resume\<close> the second, with the clock of that later moment. An
  exception inside the \<open>try\<close> (a rejected fetch, a status that is not ok, a body that
  does not parse) ends in the \<open>catch\<close>, which blacklists the identifier.
\<close>

definition tryFetchCoinData_start :: "int \<Rightarrow> string \<Rightarrow> CryptoCache \<Rightarrow> CryptoCache" where
  "tryFetchCoinData_start now coinId c =
     (if coinId \<in> set problemCoins then addToBlacklist coinId c
      else emit (Primary (apiCoinUrl coinId)) (markApiCallAttempt now coinId c))"

definition tryFetchCoinData_resume ::
    "int \<Rightarrow> string \<Rightarrow> fetch_result \<Rightarrow> CryptoCache \<Rightarrow> CryptoCache" where
  "tryFetchCoinData_resume now coinId result c =
     (case result of
        Rejected \<Rightarrow> addToBlacklist coinId c
      | Response status resetTime body \<Rightarrow>
          if status = 429
          then let waitTime = (case resetTime of
                                 Some r \<Rightarrow> if r \<noteq> [] then parseInt r else Finite 60
                               | None \<Rightarrow> Finite 60)
               in setRateLimited now True (Some waitTime) c
          else if status = 400 \<or> status = 404 then addToBlacklist coinId c
          else if \<not> (200 \<le> status \<and> status \<le> 299) then addToBlacklist coinId c
          else case body of
                 Unparseable \<Rightarrow> addToBlacklist coinId c
               | ImageSmall None \<Rightarrow> c
               | ImageSmall (Some imageUrl) \<Rightarrow>
                   if imageUrl \<noteq> [] then setImageUrl coinId imageUrl c else c)"

subsection \<open>The synchronous part\<close>

text \<open>
  \<open>getCryptoImageUrl(code)\<close> with the API key of the environment and the clock as
  parameters; \<open>code\<close> is \<open>None\<close> for \<open>undefined\<close> or \<open>null\<close>. It returns the URL and the
  cache as it leaves it. A cached URL counts only if it is truthy (not empty).
\<close>

definition getCryptoImageUrl ::
    "string \<Rightarrow> int \<Rightarrow> string option \<Rightarrow> CryptoCache \<Rightarrow> string \<times> CryptoCache" where
  "getCryptoImageUrl COINGECKO_API_KEY now code c =
     (if code = None \<or> code = Some [] then (DEFAULT_PLACEHOLDER, c)
      else
        let coinId = toLowerCase (the code);
            cachedUrl = getImageUrl coinId c
        in if cachedUrl \<noteq> None \<and> cachedUrl \<noteq> Some [] then (the cachedUrl, c)
           else if coinId = ''godd''
           then let url = ''/src/images/main.png'' in (url, setImageUrl coinId url c)
           else case localImageMap coinId of
             Some url \<Rightarrow> (url, setImageUrl coinId url c)
           | None \<Rightarrow>
              (case knownImageMapping coinId of
                 Some (n, nm) \<Rightarrow>
                   let url = ''https://assets.coingecko.com/coins/images/'' @ digits n @
                             ''/small/'' @ nm @ ''.png''
                   in (url, setImageUrl coinId url c)
               | None \<Rightarrow>
                   let c1 = (if COINGECKO_API_KEY \<noteq> [] \<and> shouldTryApiCall now coinId c
                             then (if \<not> isRateLimited now c
                                   then tryFetchCoinData_start now coinId c else c)
                             else c);
                       url = patternUrl coinId;
                       c2 = setImageUrl coinId url c1
                   in (url, emit (Preload url) c2)))"

subsection \<open>The handlers of the image preloads\<close>

text \<open>
  The preload of the pattern URL leaves handlers behind, which run later: when the
  image fails to load, the next URL is tried, and the last failure stores the
  generated placeholder. Each is a function of the identifier its closure holds.
\<close>

definition img_onerror :: "string \<Rightarrow> CryptoCache \<Rightarrow> CryptoCache" where
  "img_onerror coinId c = emit (Preload (fallbackUrl coinId)) c"

definition fallbackImg_onload :: "string \<Rightarrow> CryptoCache \<Rightarrow> CryptoCache" where
  "fallbackImg_onload coinId c = setImageUrl coinId (fallbackUrl coinId) c"

definition fallbackImg_onerror :: "string \<Rightarrow> CryptoCache \<Rightarrow> CryptoCache" where
  "fallbackImg_onerror coinId c = emit (Preload (altFallbackUrl coinId)) c"

definition altFallbackImg_onload :: "string \<Rightarrow> CryptoCache \<Rightarrow> CryptoCache" where
  "altFallbackImg_onload coinId c = setImageUrl coinId (altFallbackUrl coinId) c"

definition altFallbackImg_onerror :: "string \<Rightarrow> CryptoCache \<Rightarrow> CryptoCache" where
  "altFallbackImg_onerror coinId c = setImageUrl coinId (svgPlaceholder coinId) c"

section \<open>The fetchers\<close>

text \<open>
  A request through \<open>axios.get\<close> either resolves with the data of a 2xx response or is
  rejected: with the status of the response when there is one, without one otherwise
  (no connection, the timeout of 5 seconds).
\<close>

datatype error = StatusError nat | NetworkError

type_synonym 'a response = "error + 'a"

definition API_BASE_URL :: string where
  "API_BASE_URL = ''https://api.coingecko.com/api/v3''"

definition MOONPAY_API_BASE_URL :: string where
  "MOONPAY_API_BASE_URL = ''https://api.moonpay.com/v3''"

text \<open>
  \<open>fetchWithRetry(url, options, retries)\<close>. \<open>server n\<close> is what the primary provider
  answers to attempt number \<open>n\<close> (from 0). Only a rejection with status 429 is retried,
  after a wait of \<open>API_BACKOFF_MS\<close>, and only while \<open>retries < MAX_RETRIES\<close>; every other
  rejection is thrown again at once (\<open>Inl\<close>).
\<close>

function fetchWithRetry ::
    "(nat \<Rightarrow> 'a response) \<Rightarrow> string \<Rightarrow> nat \<Rightarrow> CryptoCache \<Rightarrow> (error + 'a) \<times> CryptoCache" where
  "fetchWithRetry server url retries c =
     (let c1 = emit (Primary url) c
      in case server retries of
           Inr d \<Rightarrow> (Inr d, c1)
         | Inl err \<Rightarrow>
             if err = StatusError 429 \<and> retries < MAX_RETRIES
             then fetchWithRetry server url (retries + 1) (emit (Sleep API_BACKOFF_MS) c1)
             else (Inl err, c1))"
  by pat_completeness auto
termination
  by (relation "measure (\<lambda>(server, url, retries, c). MAX_RETRIES - retries)") auto

declare fetchWithRetry.simps [simp del]

text \<open>
  What one call of \<open>fetchTopCoins\<close> meets: the clock when it starts, the clock when it
  runs again after its awaits, the answers of the primary provider to the successive
  attempts, and the answer of the secondary provider. The call is modelled as one
  step: what other tasks do to the cache while it awaits is not interleaved.
\<close>

record top_coins_env =
  t_start :: int
  t_resume :: int
  coingecko :: "nat \<Rightarrow> CoinData list response"
  moonpay :: "MoonPayCurrency list response"

definition cacheKey :: "string \<Rightarrow> int \<Rightarrow> string" where
  "cacheKey currency limit = ''top_coins_'' @ currency @ ''_'' @ showInt limit"

definition marketsUrl :: string where
  "marketsUrl = API_BASE_URL @ ''/coins/markets''"

definition currenciesUrl :: string where
  "currenciesUrl = MOONPAY_API_BASE_URL @ ''/currencies''"

text \<open>\<open>data.map(coin => ({..., image: getCryptoImageUrl(coin.id), ...}))\<close>, from left to
  right through the cache.\<close>

fun mapCoinGecko ::
    "string \<Rightarrow> int \<Rightarrow> CoinData list \<Rightarrow> CryptoCache \<Rightarrow> CoinData list \<times> CryptoCache" where
  "mapCoinGecko k now [] c = ([], c)"
| "mapCoinGecko k now (coin # rest) c =
     (let (url, c1) = getCryptoImageUrl k now (Some (coin_id coin)) c;
          (coins, c2) = mapCoinGecko k now rest c1
      in (coin\<lparr>image := url\<rparr> # coins, c2))"

text \<open>\<open>x || 0\<close> for an optional number.\<close>

definition orZero :: "rat option \<Rightarrow> rat" where
  "orZero x = (case x of None \<Rightarrow> 0 | Some v \<Rightarrow> v)"

fun mapMoonPay ::
    "string \<Rightarrow> int \<Rightarrow> MoonPayCurrency list \<Rightarrow> CryptoCache \<Rightarrow> CoinData list \<times> CryptoCache" where
  "mapMoonPay k now [] c = ([], c)"
| "mapMoonPay k now (coin # rest) c =
     (let (url, c1) = getCryptoImageUrl k now (Some (mp_code coin)) c;
          (coins, c2) = mapMoonPay k now rest c1
      in (\<lparr> coin_id = mp_code coin, symbol = mp_code coin, name = mp_name coin, image = url,
            current_price = orZero (mp_price coin),
            price_change_percentage_24h = orZero (mp_change24Hour coin),
            market_cap = orZero (mp_marketCap coin),
            market_cap_rank = orZero (mp_rank coin),
            total_volume = orZero (mp_volume24Hour coin),
            high_24h = None, low_24h = None \<rparr> # coins, c2))"

text \<open>The built-in list; a decimal literal of the source is the double nearest to it.
  The images are resolved one after the other.\<close>

definition getFallbackCoins :: "string \<Rightarrow> int \<Rightarrow> CryptoCache \<Rightarrow> CoinData list \<times> CryptoCache" where
  "getFallbackCoins k now c =
     (let (i1, c1) = getCryptoImageUrl k now (Some ''bitcoin'') c;
          (i2, c2) = getCryptoImageUrl k now (Some ''ethereum'') c1;
          (i3, c3) = getCryptoImageUrl k now (Some ''solana'') c2;
          (i4, c4) = getCryptoImageUrl k now (Some ''cardano'') c3;
          (i5, c5) = getCryptoImageUrl k now (Some ''godsdollar'') c4
      in ([\<lparr> coin_id = ''bitcoin'', symbol = ''btc'', name = ''Bitcoin'', image = i1,
              current_price = binary64 (5783245 / 100), price_change_percentage_24h = binary64 (234 / 100),
              market_cap = 1134578945623, market_cap_rank = 1, total_volume = 32456789012,
              high_24h = Some (binary64 (5895025 / 100)), low_24h = Some (binary64 (5678412 / 100)) \<rparr>,
           \<lparr> coin_id = ''ethereum'', symbol = ''eth'', name = ''Ethereum'', image = i2,
              current_price = binary64 (294783 / 100), price_change_percentage_24h = binary64 (156 / 100),
              market_cap = 354789012345, market_cap_rank = 2, total_volume = 15678901234,
              high_24h = Some (binary64 (302575 / 100)), low_24h = Some (binary64 (289562 / 100)) \<rparr>,
           \<lparr> coin_id = ''solana'', symbol = ''sol'', name = ''Solana'', image = i3,
              current_price = binary64 (14356 / 100), price_change_percentage_24h = binary64 (345 / 100),
              market_cap = 56789012345, market_cap_rank = 4, total_volume = 4567890123,
              high_24h = Some (binary64 (14892 / 100)), low_24h = Some (binary64 (13945 / 100)) \<rparr>,
           \<lparr> coin_id = ''cardano'', symbol = ''ada'', name = ''Cardano'', image = i4,
              current_price = binary64 (48 / 100), price_change_percentage_24h = binary64 (- 123 / 100),
              market_cap = 16789012345, market_cap_rank = 5, total_volume = 789012345,
              high_24h = Some (binary64 (51 / 100)), low_24h = Some (binary64 (47 / 100)) \<rparr>,
           \<lparr> coin_id = ''godsdollar'', symbol = ''godd'', name = ''Gods Dollar'', image = i5,
              current_price = binary64 (275 / 100), price_change_percentage_24h = binary64 (567 / 100),
              market_cap = 12345678901, market_cap_rank = 6, total_volume = 123456789,
              high_24h = Some (binary64 (291 / 100)), low_24h = Some (binary64 (265 / 100)) \<rparr>], c5))"

text \<open>
  \<open>fetchTopCoins(currency, limit)\<close>. A cached array is truthy even when empty, so every
  cache hit returns. Inside the outer \<open>try\<close>, the inner \<open>catch\<close> turns a failure of the
  primary provider into the request to the secondary one; a failure there reaches the
  outer \<open>catch\<close>, which returns the built-in list.
\<close>

definition fetchTopCoins ::
    "string \<Rightarrow> top_coins_env \<Rightarrow> string \<Rightarrow> int \<Rightarrow> CryptoCache \<Rightarrow> CoinData list \<times> CryptoCache" where
  "fetchTopCoins k env currency limit c =
     (let key = cacheKey currency limit
      in case getApiData (t_start env) key c of
           Some cachedData \<Rightarrow> (cachedData, c)
         | None \<Rightarrow>
             (case fetchWithRetry (coingecko env) marketsUrl 0 c of
                (Inr d, c1) \<Rightarrow>
                  let (coins, c2) = mapCoinGecko k (t_resume env) d c1
                  in (coins, setApiData (t_resume env) key coins c2)
              | (Inl coingeckoError, c1) \<Rightarrow>
                  let c2 = emit (Secondary currenciesUrl) c1
                  in (case moonpay env of
                        Inr d \<Rightarrow>
                          let (coins, c3) = mapMoonPay k (t_resume env) d c2
                          in (coins, setApiData (t_resume env) key coins c3)
                      | Inl err \<Rightarrow> getFallbackCoins k (t_resume env) c2)))"

text \<open>
  \<open>searchCryptocurrencies(query)\<close>, with the answer of the provider to the one request
  it makes; \<open>Inr None\<close> is a response without \<open>data.coins\<close>. Each result gets its two
  image fields from two calls of \<open>getCryptoImageUrl\<close>.
\<close>

fun mapSearch ::
    "string \<Rightarrow> int \<Rightarrow> SearchResultItem list \<Rightarrow> CryptoCache \<Rightarrow> SearchResultItem list \<times> CryptoCache" where
  "mapSearch k now [] c = ([], c)"
| "mapSearch k now (coin # rest) c =
     (let (u1, c1) = getCryptoImageUrl k now (Some (sr_id coin)) c;
          (u2, c2) = getCryptoImageUrl k now (Some (sr_id coin)) c1;
          (coins, c3) = mapSearch k now rest c2
      in (coin\<lparr>thumb := Some u1, small := Some u2\<rparr> # coins, c3))"

definition searchUrl :: string where
  "searchUrl = API_BASE_URL @ ''/search''"

definition searchCryptocurrencies ::
    "string \<Rightarrow> int \<Rightarrow> SearchResultItem list option response \<Rightarrow> string \<Rightarrow> CryptoCache
      \<Rightarrow> SearchResultItem list \<times> CryptoCache" where
  "searchCryptocurrencies k now answer query c =
     (if query = [] \<or> trim query = [] then ([], c)
      else
        let c1 = emit (Primary searchUrl) c
        in case answer of
             Inr (Some coins) \<Rightarrow> mapSearch k now (take 15 coins) c1
           | Inr None \<Rightarrow> ([], c1)
           | Inl err \<Rightarrow> ([], c1))"

section \<open>The page session\<close>

text \<open>
  An identifier for which \<open>getCryptoImageUrl\<close> gets as far as its last branch: a
  lower-cased, non-empty code that is neither \<open>godd\<close> nor in one of the two tables.
  Only for such an identifier is there a detail lookup or an image preload whose
  continuation or handler can run later.
\<close>

definition patternBranch :: "string \<Rightarrow> bool" where
  "patternBranch coinId =
     (coinId \<noteq> [] \<and> toLowerCase coinId = coinId \<and> coinId \<noteq> ''godd'' \<and>
      localImageMap coinId = None \<and> knownImageMapping coinId = None)"

text \<open>
  One step of the session on the cache: a call of \<open>getCryptoImageUrl\<close>, \<open>fetchTopCoins\<close>
  or \<open>searchCryptocurrencies\<close>, the continuation of a detail lookup, a handler of an
  image preload, or the sweep that \<open>setInterval\<close> runs. The two fetchers that are not
  modelled as functions, \<open>fetchCoinData\<close> and \<open>fetchTrendingCoins\<close>, touch the cache in
  three ways only, each of them a step: they send requests (\<open>request\<close>), they resolve
  images (\<open>resolve\<close>) and they store their payload (\<open>store\<close>). \<open>k\<close> is the API key of the
  environment.
\<close>

inductive step :: "string \<Rightarrow> CryptoCache \<Rightarrow> CryptoCache \<Rightarrow> bool" for k :: string where
  resolve: "step k c (snd (getCryptoImageUrl k now code c))"
| lookup: "patternBranch coinId \<Longrightarrow> step k c (tryFetchCoinData_resume now coinId result c)"
| img_err: "patternBranch coinId \<Longrightarrow> step k c (img_onerror coinId c)"
| fallback_load: "patternBranch coinId \<Longrightarrow> step k c (fallbackImg_onload coinId c)"
| fallback_err: "patternBranch coinId \<Longrightarrow> step k c (fallbackImg_onerror coinId c)"
| alt_load: "patternBranch coinId \<Longrightarrow> step k c (altFallbackImg_onload coinId c)"
| alt_err: "patternBranch coinId \<Longrightarrow> step k c (altFallbackImg_onerror coinId c)"
| top: "step k c (snd (fetchTopCoins k env currency limit c))"
| search: "step k c (snd (searchCryptocurrencies k now answer query c))"
| sweep: "step k c (clearExpired now c)"
| request: "step k c (emit e c)"
| store: "step k c (setApiData now key d c)"

text \<open>The caches a session can be in: those reached from the new cache.\<close>

definition reachable :: "string \<Rightarrow> CryptoCache \<Rightarrow> bool" where
  "reachable k c = (step k)\<^sup>*\<^sup>* newCache c"

text \<open>The requests to the primary provider among the effects so far.\<close>

definition primaryRequests :: "CryptoCache \<Rightarrow> string list" where
  "primaryRequests c = concat (map (\<lambda>e. case e of Primary u \<Rightarrow> [u] | _ \<Rightarrow> []) (effects c))"

text \<open>
  The entries of the local table are respected by the cache of images: under a key of
  the table the cache holds nothing or the path of the table.
\<close>

definition localsKept :: "CryptoCache \<Rightarrow> bool" where
  "localsKept c =
     (\<forall>key url. localImageMap key = Some url \<longrightarrow>
        imageCache c key = None \<or> imageCache c key = Some url)"

text \<open>
  How the cache can change in a session: the blacklist only grows, the log of effects is
  only appended to, and the local table stays respected.
\<close>

definition evolves :: "CryptoCache \<Rightarrow> CryptoCache \<Rightarrow> bool" where
  "evolves c c' =
     (coinBlacklist c \<subseteq> coinBlacklist c' \<and> (\<exists>es. effects c' = effects c @ es) \<and>
      (localsKept c \<longrightarrow> localsKept c'))"

section \<open>Properties of the format helpers\<close>

subsection \<open>The double nearest to a rational\<close>

lemma bitLength_bounds: "0 < n \<Longrightarrow> 2 ^ (bitLength n - 1) \<le> n \<and> n < 2 ^ bitLength n"
proof (induction n rule: bitLength.induct)
  case (1 n)
  show ?case
  proof (cases "n div 2 = 0")
    case True
    with 1(2) have "n = 1" by (simp add: div_eq_0_iff) 
    then show ?thesis by (simp add: bitLength.simps)
  next
    case False
    with 1 have ih: "2 ^ (bitLength (n div 2) - 1) \<le> n div 2" "n div 2 < 2 ^ bitLength (n div 2)"
      by auto
    have pos: "0 < bitLength (n div 2)" using False by (simp add: bitLength.simps)
    have bl: "bitLength n = Suc (bitLength (n div 2))" using 1(2) by (simp add: bitLength.simps)
    have "(2::nat) ^ bitLength (n div 2) = 2 * 2 ^ (bitLength (n div 2) - 1)"
      using pos by (cases "bitLength (n div 2)") auto
    with ih(1) have lo: "2 ^ bitLength (n div 2) \<le> n" by linarith
    from ih(2) have hi: "n < 2 * 2 ^ bitLength (n div 2)" by linarith
    show ?thesis using lo hi bl by simp
  qed
qed

lemma roundHalfEven_near: "\<bar>r - of_int n\<bar> < 1 / 2 \<Longrightarrow> roundHalfEven r = n"
proof -
  assume a: "\<bar>r - of_int n\<bar> < 1 / 2"
  show ?thesis
  proof (cases "of_int n \<le> r")
    case True
    with a have "\<lfloor>r\<rfloor> = n" by (intro floor_unique) auto
    with a True show ?thesis by (simp add: roundHalfEven_def Let_def)
  next
    case False
    with a have f: "\<lfloor>r\<rfloor> = n - 1" by (intro floor_unique) auto
    with a False show ?thesis by (auto simp add: roundHalfEven_def Let_def)
  qed
qed

lemma powi_exponent_unique:
  assumes "(2::rat) powi e \<le> a" "a < 2 powi (e + 1)" "2 powi e' \<le> a" "a < 2 powi (e' + 1)"
  shows "e = e'"
proof (rule ccontr)
  assume "e \<noteq> e'"
  then consider "e + 1 \<le> e'" | "e' + 1 \<le> e" by linarith
  then show False
  proof cases
    case 1
    then have "(2::rat) powi (e + 1) \<le> 2 powi e'" by (intro power_int_increasing) auto
    with assms show False by linarith
  next
    case 2
    then have "(2::rat) powi (e' + 1) \<le> 2 powi e" by (intro power_int_increasing) auto
    with assms show False by linarith
  qed
qed

lemma binaryExponent_bounds:
  assumes "0 < a"
  shows "2 powi (binaryExponent a) \<le> a \<and> a < 2 powi (binaryExponent a + 1)"
proof -
  obtain p q where pq: "quotient_of a = (p, q)" by fastforce
  have q: "0 < q" using quotient_of_denom_pos[OF pq] .
  have a_eq: "a = of_int p / of_int q" using quotient_of_div[OF pq] .
  have p: "0 < p" using assms a_eq q by (simp add: zero_less_divide_iff)
  define bp bq where "bp = bitLength (nat p)" and "bq = bitLength (nat q)"
  have P: "2 ^ (bp - 1) \<le> nat p" "nat p < 2 ^ bp"
    using bitLength_bounds[of "nat p"] p by (auto simp: bp_def)
  have Q: "2 ^ (bq - 1) \<le> nat q" "nat q < 2 ^ bq"
    using bitLength_bounds[of "nat q"] q by (auto simp: bq_def)
  have bpos: "0 < bp" "0 < bq"
    using p q by (auto simp: bp_def bq_def bitLength.simps)
  have np: "(of_nat (nat p) :: rat) = of_int p" and nq: "(of_nat (nat q) :: rat) = of_int q"
    using p q by simp_all
  have "(of_nat (2 ^ (bp - 1)) :: rat) \<le> of_nat (nat p)" "(of_nat (nat p) :: rat) < of_nat (2 ^ bp)"
    using P by (simp_all only: of_nat_le_iff of_nat_less_iff)
  then have Pr: "(2::rat) ^ (bp - 1) \<le> of_int p" "of_int p < (2::rat) ^ bp"
    by (simp_all add: np)
  have "(of_nat (2 ^ (bq - 1)) :: rat) \<le> of_nat (nat q)" "(of_nat (nat q) :: rat) < of_nat (2 ^ bq)"
    using Q by (simp_all only: of_nat_le_iff of_nat_less_iff)
  then have Qr: "(2::rat) ^ (bq - 1) \<le> of_int q" "of_int q < (2::rat) ^ bq"
    by (simp_all add: nq)
  define d where "d = int bp - int bq"
  have "d + 1 = int bp - int (bq - 1)" "d - 1 = int (bp - 1) - int bq"
    using bpos by (simp_all add: d_def)
  then have "(2::rat) powi (d + 1) = 2 powi (int bp - int (bq - 1))"
    and "(2::rat) powi (d - 1) = 2 powi (int (bp - 1) - int bq)"
    by (simp_all only:)
  then have e1: "(2::rat) powi (d + 1) = 2 ^ bp / 2 ^ (bq - 1)"
    and e2: "(2::rat) powi (d - 1) = 2 ^ (bp - 1) / 2 ^ bq"
    by (simp_all only: power_int_diff[of "2::rat", simplified] power_int_of_nat)
  have qpos: "(0::rat) < of_int q" and ppos: "(0::rat) < of_int p" using p q by simp_all
  have "of_int p * (2::rat) ^ (bq - 1) < 2 ^ bp * of_int q"
    using Pr(2) Qr(1) qpos ppos
    by (meson less_le_trans mult_strict_right_mono mult_left_mono zero_less_numeral zero_less_power less_imp_le le_less_trans)
  then have "a < 2 ^ bp / 2 ^ (bq - 1)"
    using qpos by (simp add: a_eq field_simps)
  then have up: "a < 2 powi (d + 1)"
    by (simp only: e1)
  have "(2::rat) ^ (bp - 1) * of_int q \<le> of_int p * 2 ^ bq"
    using Pr(1) Qr(2) qpos ppos
    by (meson mult_mono less_imp_le zero_le_power zero_le_numeral order_trans)
  then have "2 ^ (bp - 1) / 2 ^ bq \<le> a"
    using qpos by (simp add: a_eq field_simps)
  then have lo: "2 powi (d - 1) \<le> a"
    by (simp only: e2)
  show ?thesis
    using up lo by (simp add: binaryExponent_def pq Let_def bp_def[symmetric] bq_def[symmetric] d_def[symmetric])
qed

lemma binaryExponent_eq:
  assumes "2 powi e \<le> a" "a < 2 powi (e + 1)"
  shows "binaryExponent a = e"
proof -
  have "(0::rat) < 2 powi e" by simp
  with assms(1) have "0 < a" by linarith
  from binaryExponent_bounds[OF this] assms show ?thesis
    using powi_exponent_unique by blast
qed

lemma binary64_eq:
  assumes "2 powi e \<le> \<bar>x\<bar>" "\<bar>x\<bar> < 2 powi (e + 1)" "- 1022 \<le> e"
    and "\<bar>\<bar>x\<bar> / 2 powi (e - 52) - of_int m\<bar> < 1 / 2"
  shows "binary64 x = sgn x * of_int m * 2 powi (e - 52)"
proof -
  have "(0::rat) < 2 powi e" by simp
  with assms(1) have "0 < \<bar>x\<bar>" by linarith
  then have nz: "x \<noteq> 0" by simp
  have be: "binaryExponent \<bar>x\<bar> = e" using assms(1,2) by (rule binaryExponent_eq)
  have mx: "max (binaryExponent \<bar>x\<bar>) (- 1022) = e"
    using assms(3) by (simp add: be)
  show ?thesis
    unfolding binary64_def Let_def mx roundHalfEven_near[OF assms(4)]
    using nz by simp
qed


text \<open>The doubles of the literals used below: \<open>0.0000456\<close> and \<open>-1.234\<close> are rounded,
  the others are exact.\<close>

lemma binary64_0_0000456: "binary64 (456 / 10 ^ 7) = 1682343059522311 / 2 ^ 65"
  by (rule trans[OF binary64_eq[where e = "- 15" and m = 6729372238089244]])
     (simp_all add: power_int_def power_divide)

lemma binary64_minus_1_234: "binary64 (- 1234 / 1000) = - 694680242521899 / 2 ^ 49"
  by (rule trans[OF binary64_eq[where e = 0 and m = 5557441940175192]])
     (simp_all add: power_int_def power_divide)

lemma binary64_1234_5: "binary64 (12345 / 10) = 12345 / 10"
  by (rule trans[OF binary64_eq[where e = 10 and m = 5429388417957888]])
     (simp_all add: power_int_def power_divide)

lemma binary64_2_5: "binary64 (25 / 10) = 25 / 10"
  by (rule trans[OF binary64_eq[where e = 1 and m = 5629499534213120]])
     (simp_all add: power_int_def power_divide)

lemma binary64_1_5e9: "binary64 (15 * 10 ^ 8) = 15 * 10 ^ 8"
  by (rule trans[OF binary64_eq[where e = 30 and m = 6291456000000000]])
     (simp_all add: power_int_def power_divide)

lemma binary64_1_5: "binary64 (3 / 2) = 3 / 2"
  by (rule trans[OF binary64_eq[where e = 0 and m = 6755399441055744]])
     (simp_all add: power_int_def power_divide)

subsection \<open>The examples\<close>

lemma formatPrice_thousands:
  "formatPrice (Number (binary64 (12345 / 10))) = Some ''$1,235''"
  unfolding binary64_1234_5 by code_simp

lemma formatPrice_units:
  "formatPrice (Number (binary64 (25 / 10))) = Some ''$2.50''"
  unfolding binary64_2_5 by code_simp

lemma formatPrice_small:
  "formatPrice (Number (binary64 (456 / 10 ^ 7))) = Some ''$0.000046''"
  unfolding binary64_0_0000456 by code_simp

lemma formatPriceChange_negative:
  "formatPriceChange (Number (binary64 (- 1234 / 1000))) = Some ''-1.23%''"
  unfolding binary64_minus_1_234 by code_simp

lemma toFixed_1_5: "toFixed 2 (3 / 2) = Some ''1.50''"
  by code_simp

lemma formatCompactNumber_billions:
  "formatCompactNumber (Number (binary64 (15 * 10 ^ 8))) = Some ''1.50B''"
  unfolding binary64_1_5e9 by (simp add: formatCompactNumber_def binary64_1_5 toFixed_1_5)

text \<open>
  Claim C9. The format helpers at the inputs of the specification, each input being the
  double its literal denotes: \<open>formatPrice(1234.5)\<close> is \<open>$1,235\<close> (no decimals from 1000
  on, a comma between the thousands), \<open>formatPrice(2.5)\<close> is \<open>$2.50\<close>,
  \<open>formatPrice(0.0000456)\<close> is \<open>$0.000046\<close>, \<open>formatPriceChange(-1.234)\<close> is \<open>-1.23%\<close>, and
  \<open>formatCompactNumber(1.5e9)\<close> is \<open>1.50B\<close>.
\<close>

theorem format_helpers_examples:
  "formatPrice (Number (binary64 (12345 / 10))) = Some ''$1,235'' \<and>
   formatPrice (Number (binary64 (25 / 10))) = Some ''$2.50'' \<and>
   formatPrice (Number (binary64 (456 / 10 ^ 7))) = Some ''$0.000046'' \<and>
   formatPriceChange (Number (binary64 (- 1234 / 1000))) = Some ''-1.23%'' \<and>
   formatCompactNumber (Number (binary64 (15 * 10 ^ 8))) = Some ''1.50B''"
  by (intro conjI formatPrice_thousands formatPrice_units formatPrice_small
      formatPriceChange_negative formatCompactNumber_billions)

section \<open>Properties of the cache\<close>

named_theorems cache_defs

lemmas [cache_defs] = emit_def setImageUrl_def getImageUrl_def setApiData_def getApiData_def
  isRateLimited_def setRateLimited_def addToBlacklist_def isBlacklisted_def
  shouldTryApiCall_def markApiCallAttempt_def clearExpired_def

lemma lowerChar_idem: "lowerChar (lowerChar c) = lowerChar c"
  by (auto simp: lowerChar_def isUpper_def Let_def)

lemma toLowerCase_idem [simp]: "toLowerCase (toLowerCase s) = toLowerCase s"
  by (simp add: toLowerCase_def lowerChar_idem)


lemma localImageMap_nonempty: "localImageMap key = Some url \<Longrightarrow> url \<noteq> []"
  unfolding localImageMap_def by (drule map_of_SomeD) auto

lemma localImageMap_godd: "localImageMap ''godd'' = None"
  by (simp add: localImageMap_def)

lemma toLowerCase_godd [simp]: "toLowerCase ''godd'' = ''godd''"
  by code_simp

subsection \<open>The branches of \<open>getCryptoImageUrl\<close>\<close>

lemma getCryptoImageUrl_empty:
  "code = None \<or> code = Some [] \<Longrightarrow> getCryptoImageUrl k now code c = (DEFAULT_PLACEHOLDER, c)"
  by (auto simp: getCryptoImageUrl_def)

lemma getCryptoImageUrl_cached:
  assumes "cd \<noteq> []" "imageCache c (toLowerCase cd) = Some u" "u \<noteq> []"
  shows "getCryptoImageUrl k now (Some cd) c = (u, c)"
  using assms by (simp add: getCryptoImageUrl_def getImageUrl_def Let_def)

lemma getCryptoImageUrl_godd:
  assumes "cd \<noteq> []"
    and "imageCache c (toLowerCase cd) = None \<or> imageCache c (toLowerCase cd) = Some []"
    and "toLowerCase cd = ''godd''"
  shows "getCryptoImageUrl k now (Some cd) c =
         (''/src/images/main.png'', setImageUrl (toLowerCase cd) ''/src/images/main.png'' c)"
  using assms by (auto simp: getCryptoImageUrl_def getImageUrl_def Let_def)

lemma getCryptoImageUrl_local:
  assumes "cd \<noteq> []"
    and "imageCache c (toLowerCase cd) = None \<or> imageCache c (toLowerCase cd) = Some []"
    and "toLowerCase cd \<noteq> ''godd''" "localImageMap (toLowerCase cd) = Some url"
  shows "getCryptoImageUrl k now (Some cd) c = (url, setImageUrl (toLowerCase cd) url c)"
  using assms by (auto simp: getCryptoImageUrl_def getImageUrl_def Let_def)

lemma getCryptoImageUrl_known:
  assumes "cd \<noteq> []"
    and "imageCache c (toLowerCase cd) = None \<or> imageCache c (toLowerCase cd) = Some []"
    and "toLowerCase cd \<noteq> ''godd''" "localImageMap (toLowerCase cd) = None"
    and "knownImageMapping (toLowerCase cd) = Some (n, nm)"
  shows "getCryptoImageUrl k now (Some cd) c =
         (''https://assets.coingecko.com/coins/images/'' @ digits n @ ''/small/'' @ nm @ ''.png'',
          setImageUrl (toLowerCase cd)
            (''https://assets.coingecko.com/coins/images/'' @ digits n @ ''/small/'' @ nm @ ''.png'') c)"
  using assms by (auto simp: getCryptoImageUrl_def getImageUrl_def Let_def)

lemma getCryptoImageUrl_pattern:
  assumes "cd \<noteq> []"
    and "imageCache c (toLowerCase cd) = None \<or> imageCache c (toLowerCase cd) = Some []"
    and "toLowerCase cd \<noteq> ''godd''" "localImageMap (toLowerCase cd) = None"
    and "knownImageMapping (toLowerCase cd) = None"
  shows "getCryptoImageUrl k now (Some cd) c =
         (patternUrl (toLowerCase cd),
          emit (Preload (patternUrl (toLowerCase cd)))
            (setImageUrl (toLowerCase cd) (patternUrl (toLowerCase cd))
               (if k \<noteq> [] \<and> shouldTryApiCall now (toLowerCase cd) c \<and> \<not> isRateLimited now c
                then tryFetchCoinData_start now (toLowerCase cd) c else c)))"
  using assms by (auto simp: getCryptoImageUrl_def getImageUrl_def Let_def)

lemma tryFetchCoinData_start_frame:
  "imageCache (tryFetchCoinData_start now coinId c) = imageCache c"
  "apiCache (tryFetchCoinData_start now coinId c) = apiCache c"
  "rateLimitedUntil (tryFetchCoinData_start now coinId c) = rateLimitedUntil c"
  "coinBlacklist c \<subseteq> coinBlacklist (tryFetchCoinData_start now coinId c)"
  "\<exists>es. effects (tryFetchCoinData_start now coinId c) = effects c @ es"
  by (auto simp: tryFetchCoinData_start_def cache_defs)

text \<open>What a call does to the cache, whatever its branch.\<close>

lemma getCryptoImageUrl_shape:
  obtains u c1 es where "getCryptoImageUrl k now code c = (u, c1)"
    and "apiCache c1 = apiCache c" and "rateLimitedUntil c1 = rateLimitedUntil c"
    and "coinBlacklist c \<subseteq> coinBlacklist c1" and "effects c1 = effects c @ es"
    and "imageCache c1 = imageCache c \<or>
         (\<exists>cd. code = Some cd \<and> cd \<noteq> [] \<and> u \<noteq> [] \<and>
               imageCache c1 = (imageCache c)(toLowerCase cd \<mapsto> u) \<and>
               (\<forall>v. localImageMap (toLowerCase cd) = Some v \<longrightarrow> u = v))"
proof (cases "code = None \<or> code = Some []")
  case True
  show ?thesis
    by (rule that[OF getCryptoImageUrl_empty[OF True], where es = "[]"]) auto
next
  case False
  then obtain cd where cd: "code = Some cd" "cd \<noteq> []" by auto
  show ?thesis
  proof (cases "imageCache c (toLowerCase cd) = None \<or> imageCache c (toLowerCase cd) = Some []")
    case False
    then obtain u where u: "imageCache c (toLowerCase cd) = Some u" "u \<noteq> []" by auto
    show ?thesis
      by (rule that[OF getCryptoImageUrl_cached[OF cd(2) u, folded cd(1)], where es = "[]"]) auto
  next
    case miss: True
    show ?thesis
    proof (cases "toLowerCase cd = ''godd''")
      case True
      show ?thesis
        using localImageMap_godd True cd
        by (intro that[OF getCryptoImageUrl_godd[OF cd(2) miss True, folded cd(1)], where es = "[]"])
           (auto simp: cache_defs)
    next
      case ng: False
      show ?thesis
      proof (cases "localImageMap (toLowerCase cd)")
        case (Some url)
        show ?thesis
          using localImageMap_nonempty[OF Some] cd Some
          by (intro that[OF getCryptoImageUrl_local[OF cd(2) miss ng Some, folded cd(1)], where es = "[]"])
             (auto simp: cache_defs)
      next
        case nl: None
        show ?thesis
        proof (cases "knownImageMapping (toLowerCase cd)")
          case (Some a)
          obtain n nm where a: "a = (n, nm)" by (cases a)
          show ?thesis
            using cd nl
            by (intro that[OF getCryptoImageUrl_known[OF cd(2) miss ng nl Some[unfolded a], folded cd(1)],
                  where es = "[]"])
               (auto simp: cache_defs)
        next
          case None
          let ?go = "k \<noteq> [] \<and> shouldTryApiCall now (toLowerCase cd) c \<and> \<not> isRateLimited now c"
          let ?c1 = "if ?go then tryFetchCoinData_start now (toLowerCase cd) c else c"
          obtain es where es: "effects ?c1 = effects c @ es"
            using tryFetchCoinData_start_frame(5)[where now = now and coinId = "toLowerCase cd" and c = c]
            by (cases ?go) auto
          have fr: "imageCache ?c1 = imageCache c" "apiCache ?c1 = apiCache c"
            "rateLimitedUntil ?c1 = rateLimitedUntil c" "coinBlacklist c \<subseteq> coinBlacklist ?c1"
            using tryFetchCoinData_start_frame(1-4)[where now = now and coinId = "toLowerCase cd" and c = c]
            by auto
          show ?thesis
            using fr es cd nl
            by (intro that[OF getCryptoImageUrl_pattern[OF cd(2) miss ng nl None, folded cd(1)],
                  where es = "es @ [Preload (patternUrl (toLowerCase cd))]"])
               (auto simp: emit_def setImageUrl_def patternUrl_def)
        qed
      qed
    qed
  qed
qed

lemma getCryptoImageUrl_blacklist:
  "coinBlacklist c \<subseteq> coinBlacklist (snd (getCryptoImageUrl k now code c))"
  by (rule getCryptoImageUrl_shape[of k now code c]) simp

lemma getCryptoImageUrl_effects:
  "\<exists>es. effects (snd (getCryptoImageUrl k now code c)) = effects c @ es"
  by (rule getCryptoImageUrl_shape[of k now code c]) simp

lemma getCryptoImageUrl_apiCache:
  "apiCache (snd (getCryptoImageUrl k now code c)) = apiCache c"
  by (rule getCryptoImageUrl_shape[of k now code c]) simp

lemma getCryptoImageUrl_localsKept:
  assumes "localsKept c"
  shows "localsKept (snd (getCryptoImageUrl k now code c))"
proof (rule getCryptoImageUrl_shape[of k now code c])
  fix u c1 es
  assume eq: "getCryptoImageUrl k now code c = (u, c1)"
    and img: "imageCache c1 = imageCache c \<or>
         (\<exists>cd. code = Some cd \<and> cd \<noteq> [] \<and> u \<noteq> [] \<and>
               imageCache c1 = (imageCache c)(toLowerCase cd \<mapsto> u) \<and>
               (\<forall>v. localImageMap (toLowerCase cd) = Some v \<longrightarrow> u = v))"
  have "localsKept c1"
    unfolding localsKept_def
  proof (intro allI impI)
    fix key url
    assume l: "localImageMap key = Some url"
    with assms have old: "imageCache c key = None \<or> imageCache c key = Some url"
      by (simp add: localsKept_def)
    from img show "imageCache c1 key = None \<or> imageCache c1 key = Some url"
    proof
      assume "imageCache c1 = imageCache c"
      with old show ?thesis by simp
    next
      assume "\<exists>cd. code = Some cd \<and> cd \<noteq> [] \<and> u \<noteq> [] \<and>
               imageCache c1 = (imageCache c)(toLowerCase cd \<mapsto> u) \<and>
               (\<forall>v. localImageMap (toLowerCase cd) = Some v \<longrightarrow> u = v)"
      then obtain cd where w: "imageCache c1 = (imageCache c)(toLowerCase cd \<mapsto> u)"
        and v: "\<forall>v. localImageMap (toLowerCase cd) = Some v \<longrightarrow> u = v" by blast
      show ?thesis
      proof (cases "key = toLowerCase cd")
        case True
        with v l have "u = url" by simp
        with w True show ?thesis by simp
      next
        case False
        with w old show ?thesis by simp
      qed
    qed
  qed
  with eq show ?thesis by simp
qed

subsection \<open>Every operation lets the cache evolve\<close>

lemma evolves_refl [simp]: "evolves c c"
  by (simp add: evolves_def)

lemma evolves_trans: "evolves a b \<Longrightarrow> evolves b c \<Longrightarrow> evolves a c"
  by (auto simp: evolves_def)

lemma evolves_emit [simp]: "evolves c (emit e c)"
  by (simp add: evolves_def emit_def localsKept_def)

lemma getCryptoImageUrl_evolves: "evolves c (snd (getCryptoImageUrl k now code c))"
  unfolding evolves_def
  using getCryptoImageUrl_blacklist getCryptoImageUrl_effects getCryptoImageUrl_localsKept
  by blast

lemma mapCoinGecko_evolves: "evolves c (snd (mapCoinGecko k now xs c))"
proof (induction xs arbitrary: c)
  case Nil
  show ?case by simp
next
  case (Cons x xs)
  have "evolves (snd (getCryptoImageUrl k now (Some (coin_id x)) c))
          (snd (mapCoinGecko k now (x # xs) c))"
    using Cons.IH[of "snd (getCryptoImageUrl k now (Some (coin_id x)) c)"]
    by (simp add: split_beta)
  with getCryptoImageUrl_evolves show ?case by (rule evolves_trans)
qed

lemma mapMoonPay_evolves: "evolves c (snd (mapMoonPay k now xs c))"
proof (induction xs arbitrary: c)
  case Nil
  show ?case by simp
next
  case (Cons x xs)
  have "evolves (snd (getCryptoImageUrl k now (Some (mp_code x)) c))
          (snd (mapMoonPay k now (x # xs) c))"
    using Cons.IH[of "snd (getCryptoImageUrl k now (Some (mp_code x)) c)"]
    by (simp add: split_beta)
  with getCryptoImageUrl_evolves show ?case by (rule evolves_trans)
qed

lemma mapSearch_evolves: "evolves c (snd (mapSearch k now xs c))"
proof (induction xs arbitrary: c)
  case Nil
  show ?case by simp
next
  case (Cons x xs)
  let ?c1 = "snd (getCryptoImageUrl k now (Some (sr_id x)) c)"
  let ?c2 = "snd (getCryptoImageUrl k now (Some (sr_id x)) ?c1)"
  have "evolves ?c2 (snd (mapSearch k now (x # xs) c))"
    using Cons.IH[of ?c2] by (simp add: split_beta)
  moreover have "evolves c ?c2"
    using getCryptoImageUrl_evolves getCryptoImageUrl_evolves by (rule evolves_trans)
  ultimately show ?case using evolves_trans by blast
qed

lemma getFallbackCoins_evolves: "evolves c (snd (getFallbackCoins k now c))"
proof -
  let ?c1 = "snd (getCryptoImageUrl k now (Some ''bitcoin'') c)"
  let ?c2 = "snd (getCryptoImageUrl k now (Some ''ethereum'') ?c1)"
  let ?c3 = "snd (getCryptoImageUrl k now (Some ''solana'') ?c2)"
  let ?c4 = "snd (getCryptoImageUrl k now (Some ''cardano'') ?c3)"
  let ?c5 = "snd (getCryptoImageUrl k now (Some ''godsdollar'') ?c4)"
  have "snd (getFallbackCoins k now c) = ?c5"
    by (simp add: getFallbackCoins_def split_beta)
  moreover have "evolves c ?c5"
    by (meson getCryptoImageUrl_evolves evolves_trans)
  ultimately show ?thesis by simp
qed

text \<open>\<open>fetchWithRetry\<close> touches nothing but the log, which starts with its request.\<close>

lemma fetchWithRetry_log:
  "\<exists>es. snd (fetchWithRetry server url r c) = c\<lparr>effects := effects c @ Primary url # es\<rparr>"
proof (induction server url r c rule: fetchWithRetry.induct)
  case (1 server url retries c)
  show ?case
  proof (cases "server retries")
    case (Inr d)
    then show ?thesis
      by (intro exI[of _ "[]"]) (simp add: fetchWithRetry.simps[of server url retries c] emit_def)
  next
    case (Inl err)
    show ?thesis
    proof (cases "err = StatusError 429 \<and> retries < MAX_RETRIES")
      case False
      with Inl show ?thesis
        by (intro exI[of _ "[]"]) (auto simp add: fetchWithRetry.simps[of server url retries c] emit_def)
    next
      case True
      from 1[OF refl Inl True] obtain es where
        "snd (fetchWithRetry server url (retries + 1) (emit (Sleep API_BACKOFF_MS) (emit (Primary url) c)))
         = (emit (Sleep API_BACKOFF_MS) (emit (Primary url) c))
             \<lparr>effects := effects (emit (Sleep API_BACKOFF_MS) (emit (Primary url) c)) @ Primary url # es\<rparr>"
        by blast
      with Inl True show ?thesis
        by (intro exI[of _ "Sleep API_BACKOFF_MS # Primary url # es"])
           (simp add: fetchWithRetry.simps[of server url retries c] emit_def)
    qed
  qed
qed

lemma fetchWithRetry_evolves: "evolves c (snd (fetchWithRetry server url r c))"
proof -
  obtain es where "snd (fetchWithRetry server url r c) = c\<lparr>effects := effects c @ Primary url # es\<rparr>"
    using fetchWithRetry_log by blast
  then show ?thesis by (simp add: evolves_def localsKept_def)
qed

lemma setApiData_evolves [simp]: "evolves c (setApiData now key d c)"
  by (simp add: evolves_def setApiData_def localsKept_def)

lemma clearExpired_evolves [simp]: "evolves c (clearExpired now c)"
  by (simp add: evolves_def clearExpired_def localsKept_def)

lemma fetchTopCoins_evolves: "evolves c (snd (fetchTopCoins k env currency limit c))"
proof (cases "getApiData (t_start env) (cacheKey currency limit) c")
  case (Some cachedData)
  then show ?thesis by (simp add: fetchTopCoins_def)
next
  case None
  obtain r c1 where f: "fetchWithRetry (coingecko env) marketsUrl 0 c = (r, c1)"
    by (cases "fetchWithRetry (coingecko env) marketsUrl 0 c")
  have c1: "evolves c c1"
    using fetchWithRetry_evolves[of c "coingecko env" marketsUrl 0] f by simp
  show ?thesis
  proof (cases r)
    case (Inr d)
    have "evolves c1 (snd (mapCoinGecko k (t_resume env) d c1))"
      by (rule mapCoinGecko_evolves)
    then have "evolves c1 (snd (fetchTopCoins k env currency limit c))"
      using None f Inr
      by (auto simp: fetchTopCoins_def split_beta Let_def intro: evolves_trans[OF _ setApiData_evolves])
    with c1 show ?thesis by (rule evolves_trans)
  next
    case (Inl e)
    let ?c2 = "emit (Secondary currenciesUrl) c1"
    have c2: "evolves c ?c2" using c1 evolves_emit by (rule evolves_trans)
    show ?thesis
    proof (cases "moonpay env")
      case (Inr d)
      have "evolves ?c2 (snd (mapMoonPay k (t_resume env) d ?c2))"
        by (rule mapMoonPay_evolves)
      then have "evolves ?c2 (snd (fetchTopCoins k env currency limit c))"
        using None f Inl Inr
        by (auto simp: fetchTopCoins_def split_beta Let_def intro: evolves_trans[OF _ setApiData_evolves])
      with c2 show ?thesis by (rule evolves_trans)
    next
      case moon: (Inl e')
      have "evolves ?c2 (snd (getFallbackCoins k (t_resume env) ?c2))"
        by (rule getFallbackCoins_evolves)
      then have "evolves ?c2 (snd (fetchTopCoins k env currency limit c))"
        using None f Inl moon by (simp add: fetchTopCoins_def Let_def)
      with c2 show ?thesis by (rule evolves_trans)
    qed
  qed
qed

lemma searchCryptocurrencies_evolves:
  "evolves c (snd (searchCryptocurrencies k now answer query c))"
proof (cases "query = [] \<or> trim query = []")
  case True
  then show ?thesis by (auto simp: searchCryptocurrencies_def)
next
  case False
  let ?c1 = "emit (Primary searchUrl) c"
  have "evolves ?c1 (snd (searchCryptocurrencies k now answer query c))"
    using False mapSearch_evolves[of ?c1 k now]
    by (auto simp: searchCryptocurrencies_def Let_def split: sum.splits option.splits)
  with evolves_emit show ?thesis by (rule evolves_trans)
qed

lemma setImageUrl_pattern_evolves:
  "patternBranch coinId \<Longrightarrow> evolves c (setImageUrl coinId url c)"
  by (auto simp: evolves_def setImageUrl_def localsKept_def patternBranch_def)

lemma addToBlacklist_evolves [simp]: "evolves c (addToBlacklist coinId c)"
  by (auto simp: evolves_def addToBlacklist_def localsKept_def)

lemma setRateLimited_evolves [simp]: "evolves c (setRateLimited now b w c)"
  by (auto simp: evolves_def setRateLimited_def localsKept_def Let_def)

lemma tryFetchCoinData_resume_evolves:
  "patternBranch coinId \<Longrightarrow> evolves c (tryFetchCoinData_resume now coinId result c)"
  by (auto simp: tryFetchCoinData_resume_def Let_def setImageUrl_pattern_evolves
      split: fetch_result.splits detail_body.splits option.splits)

lemma step_evolves: "step k c c' \<Longrightarrow> evolves c c'"
proof (induction rule: step.induct)
  case (resolve c now code)
  show ?case by (rule getCryptoImageUrl_evolves)
next
  case (lookup coinId c now result)
  then show ?case by (rule tryFetchCoinData_resume_evolves)
next
  case (top c env currency limit)
  show ?case by (rule fetchTopCoins_evolves)
next
  case (search c now answer query)
  show ?case by (rule searchCryptocurrencies_evolves)
qed (simp_all add: img_onerror_def fallbackImg_onload_def fallbackImg_onerror_def
      altFallbackImg_onload_def altFallbackImg_onerror_def setImageUrl_pattern_evolves)

lemma steps_evolve: "(step k)\<^sup>*\<^sup>* c c' \<Longrightarrow> evolves c c'"
  by (induction rule: rtranclp_induct) (auto intro: evolves_trans step_evolves)

lemma localsKept_newCache: "localsKept newCache"
  by (simp add: localsKept_def newCache_def)

lemma reachable_localsKept: "reachable k c \<Longrightarrow> localsKept c"
  using steps_evolve[of k newCache c] localsKept_newCache
  by (simp add: reachable_def evolves_def)

section \<open>Image resolution\<close>


lemma primaryRequests_emit_Preload [simp]:
  "primaryRequests (emit (Preload u) c) = primaryRequests c"
  by (simp add: primaryRequests_def emit_def)

lemma primaryRequests_setImageUrl [simp]:
  "primaryRequests (setImageUrl coinId u c) = primaryRequests c"
  by (simp add: primaryRequests_def setImageUrl_def)

text \<open>Without the detail lookup a call makes no request to the primary provider.\<close>

lemma getCryptoImageUrl_no_request:
  assumes "\<And>cd. code = Some cd \<Longrightarrow> \<not> shouldTryApiCall now (toLowerCase cd) c"
  shows "primaryRequests (snd (getCryptoImageUrl k now code c)) = primaryRequests c"
proof (cases "code = None \<or> code = Some []")
  case True
  then show ?thesis by (simp add: getCryptoImageUrl_empty)
next
  case False
  then obtain cd where cd: "code = Some cd" "cd \<noteq> []" by auto
  note no = assms[OF cd(1)]
  show ?thesis
  proof (cases "imageCache c (toLowerCase cd) = None \<or> imageCache c (toLowerCase cd) = Some []")
    case False
    then obtain u where u: "imageCache c (toLowerCase cd) = Some u" "u \<noteq> []" by auto
    show ?thesis by (simp add: cd getCryptoImageUrl_cached[OF cd(2) u])
  next
    case miss: True
    show ?thesis
    proof (cases "toLowerCase cd = ''godd''")
      case True
      show ?thesis by (simp add: cd getCryptoImageUrl_godd[OF cd(2) miss True])
    next
      case ng: False
      show ?thesis
      proof (cases "localImageMap (toLowerCase cd)")
        case (Some url)
        show ?thesis by (simp add: cd getCryptoImageUrl_local[OF cd(2) miss ng Some])
      next
        case nl: None
        show ?thesis
        proof (cases "knownImageMapping (toLowerCase cd)")
          case (Some a)
          obtain n nm where a: "a = (n, nm)" by (cases a)
          show ?thesis
            by (simp add: cd getCryptoImageUrl_known[OF cd(2) miss ng nl Some[unfolded a]])
        next
          case None
          show ?thesis
            using no by (simp add: cd getCryptoImageUrl_pattern[OF cd(2) miss ng nl None])
        qed
      qed
    qed
  qed
qed

lemma toLowerCase_bitcoin: "toLowerCase ''bitcoin'' = ''bitcoin''"
  by code_simp

lemma localImageMap_bitcoin: "localImageMap ''bitcoin'' = Some ''/src/images/crypto/bitcoin.png''"
  by (simp add: localImageMap_def)

text \<open>
  Claim C8. In every cache a session can reach, \<open>getCryptoImageUrl('bitcoin')\<close> returns the
  path of the local table, \<open>/src/images/crypto/bitcoin.png\<close>, and does so within the call,
  with no effect on the outside: no request to a provider and no image preload. The
  identifier is a key of the local table, and the cache of images holds nothing else
  under such a key.
\<close>

theorem bitcoin_resolves_locally:
  assumes "reachable k c"
  shows "localImageMap ''bitcoin'' = Some ''/src/images/crypto/bitcoin.png'' \<and>
         fst (getCryptoImageUrl k now (Some ''bitcoin'') c) = ''/src/images/crypto/bitcoin.png'' \<and>
         effects (snd (getCryptoImageUrl k now (Some ''bitcoin'') c)) = effects c"
proof -
  from reachable_localsKept[OF assms] localImageMap_bitcoin
  have "imageCache c ''bitcoin'' = None \<or>
        imageCache c ''bitcoin'' = Some ''/src/images/crypto/bitcoin.png''"
    unfolding localsKept_def by blast
  then show ?thesis
  proof
    assume n: "imageCache c ''bitcoin'' = None"
    have "getCryptoImageUrl k now (Some ''bitcoin'') c =
          (''/src/images/crypto/bitcoin.png'',
           setImageUrl (toLowerCase ''bitcoin'') ''/src/images/crypto/bitcoin.png'' c)"
      by (rule getCryptoImageUrl_local) (simp_all add: toLowerCase_bitcoin n localImageMap_bitcoin)
    then show ?thesis by (simp add: localImageMap_bitcoin setImageUrl_def)
  next
    assume s: "imageCache c ''bitcoin'' = Some ''/src/images/crypto/bitcoin.png''"
    have "getCryptoImageUrl k now (Some ''bitcoin'') c = (''/src/images/crypto/bitcoin.png'', c)"
      by (rule getCryptoImageUrl_cached) (simp_all add: toLowerCase_bitcoin s)
    then show ?thesis by (simp add: localImageMap_bitcoin)
  qed
qed

theorem bitcoin_resolves_locally_witness:
  "reachable ''key'' newCache \<and>
   fst (getCryptoImageUrl ''key'' 0 (Some ''bitcoin'') newCache) = ''/src/images/crypto/bitcoin.png'' \<and>
   effects (snd (getCryptoImageUrl ''key'' 0 (Some ''bitcoin'') newCache)) = []"
proof -
  have r: "reachable ''key'' newCache" by (simp add: reachable_def)
  show ?thesis using r bitcoin_resolves_locally[OF r, of 0] by (simp add: newCache_def)
qed




section \<open>The blacklist\<close>

lemma blacklisted_no_call:
  assumes "toLowerCase x \<in> coinBlacklist c"
  shows "\<not> shouldTryApiCall now x c" and "\<not> shouldTryApiCall now (toLowerCase x) c"
  using assms by (simp_all add: shouldTryApiCall_def isBlacklisted_def)

text \<open>
  Claim C6. When the detail lookup for an identifier is answered with status 404 or 400,
  the identifier is put on the blacklist. From then on, whatever happens in the session,
  \<open>shouldTryApiCall\<close> is false for it at every time, and a call of \<open>getCryptoImageUrl\<close> for
  it (in any letter case) makes no request to the primary provider: it returns a cached
  or guessed URL, and its only possible effect is the preload of the pattern URL.
\<close>

theorem blacklisted_after_not_found:
  assumes "status = 404 \<or> status = 400"
    and "(step k)\<^sup>*\<^sup>* (tryFetchCoinData_resume t0 coinId (Response status resetTime body) c) c'"
    and "toLowerCase code = toLowerCase coinId"
  shows "isBlacklisted coinId (tryFetchCoinData_resume t0 coinId (Response status resetTime body) c) \<and>
         isBlacklisted coinId c' \<and>
         \<not> shouldTryApiCall now coinId c' \<and>
         primaryRequests (snd (getCryptoImageUrl k now (Some code) c')) = primaryRequests c'"
proof -
  let ?c1 = "tryFetchCoinData_resume t0 coinId (Response status resetTime body) c"
  have "?c1 = addToBlacklist coinId c"
    using assms(1) by (auto simp: tryFetchCoinData_resume_def)
  then have in1: "toLowerCase coinId \<in> coinBlacklist ?c1"
    by (simp add: addToBlacklist_def)
  from steps_evolve[OF assms(2)] have "coinBlacklist ?c1 \<subseteq> coinBlacklist c'"
    by (simp add: evolves_def)
  with in1 have in2: "toLowerCase coinId \<in> coinBlacklist c'" by blast
  have a: "isBlacklisted coinId ?c1" "isBlacklisted coinId c'"
    using in1 in2 by (simp_all add: isBlacklisted_def)
  have b: "\<not> shouldTryApiCall now coinId c'"
    using in2 by (rule blacklisted_no_call)
  have "toLowerCase code \<in> coinBlacklist c'" using in2 assms(3) by simp
  then have "\<not> shouldTryApiCall now (toLowerCase code) c'"
    by (rule blacklisted_no_call)
  then have d: "primaryRequests (snd (getCryptoImageUrl k now (Some code) c')) = primaryRequests c'"
    by (intro getCryptoImageUrl_no_request) simp
  from a b d show ?thesis by (intro conjI)
qed

lemma toLowerCase_newcoin: "toLowerCase ''NewCoin'' = toLowerCase ''newcoin''"
  by code_simp

theorem blacklisted_after_not_found_witness:
  "isBlacklisted ''newcoin''
     (snd (getCryptoImageUrl ''key'' 9 (Some ''NewCoin'')
        (tryFetchCoinData_resume 5 ''newcoin'' (Response 404 None Unparseable) newCache))) \<and>
   \<not> shouldTryApiCall 70000 ''newcoin''
     (snd (getCryptoImageUrl ''key'' 9 (Some ''NewCoin'')
        (tryFetchCoinData_resume 5 ''newcoin'' (Response 404 None Unparseable) newCache)))"
proof -
  let ?c1 = "tryFetchCoinData_resume 5 ''newcoin'' (Response 404 None Unparseable) newCache"
  let ?c2 = "snd (getCryptoImageUrl ''key'' 9 (Some ''NewCoin'') ?c1)"
  have s: "(step ''key'')\<^sup>*\<^sup>* ?c1 ?c2"
    by (rule r_into_rtranclp) (rule step.resolve)
  have st: "(404::nat) = 404 \<or> (404::nat) = 400" by simp
  from blacklisted_after_not_found[OF st s toLowerCase_newcoin, of 70000]
  show ?thesis by simp
qed

section \<open>The rate-limit gate\<close>

lemma parseInt_120: "parseInt ''120'' = Finite 120"
  by code_simp

text \<open>
  Claim C5, as the code has it. A 429 answer to the detail lookup sets the gate to the
  time of the answer plus a duration: 60 seconds when the header \<open>x-ratelimit-reset\<close> is
  missing or empty; the number of seconds \<open>parseInt\<close> reads from the header when that is
  a number other than zero (120 seconds for the header \<open>120\<close>); and the default of
  5 minutes of \<open>setRateLimited\<close> when the header reads as zero or as no number.
\<close>

theorem rate_limit_gate_duration:
  "rateLimitedUntil (tryFetchCoinData_resume now coinId (Response 429 resetTime body) c) =
     now + (case resetTime of
              None \<Rightarrow> 60 * 1000
            | Some r \<Rightarrow>
                if r = [] then 60 * 1000
                else (case parseInt r of
                        Finite w \<Rightarrow> if w \<noteq> 0 then w * 1000 else 5 * 60 * 1000
                      | NaN \<Rightarrow> 5 * 60 * 1000)) \<and>
   rateLimitedUntil (tryFetchCoinData_resume now coinId (Response 429 (Some ''120'') body) c) =
     now + 120 * 1000"
  by (simp add: tryFetchCoinData_resume_def setRateLimited_def Let_def parseInt_120
      split: option.splits jsint.splits)

text \<open>
  The claim as the specification words it fails where the header is missing: the gate
  then lasts 60 seconds, not 5 minutes.
\<close>

theorem rate_limit_default_counterexample:
  "rateLimitedUntil
     (tryFetchCoinData_resume 0 ''newcoin'' (Response 429 None Unparseable) newCache) = 60 * 1000 \<and>
   rateLimitedUntil
     (tryFetchCoinData_resume 0 ''newcoin'' (Response 429 None Unparseable) newCache) \<noteq> 0 + 5 * 60 * 1000"
  by (simp add: tryFetchCoinData_resume_def setRateLimited_def newCache_def)

section \<open>Retries\<close>

lemma fetchWithRetry_from:
  assumes "r \<le> n" "n \<le> MAX_RETRIES"
    and "\<forall>i. r \<le> i \<and> i < n \<longrightarrow> server i = Inl (StatusError 429)"
    and "n = MAX_RETRIES \<or> server n \<noteq> Inl (StatusError 429)"
  shows "fetchWithRetry server url r c =
         (server n, c\<lparr>effects := effects c @ Primary url #
                       concat (replicate (n - r) [Sleep API_BACKOFF_MS, Primary url])\<rparr>)"
  using assms(1,3)
proof (induction "n - r" arbitrary: r c)
  case 0
  then have r: "r = n" by simp
  show ?case
  proof (cases "server n")
    case (Inr d)
    then show ?thesis by (simp add: r fetchWithRetry.simps[of server url n c] emit_def Let_def)
  next
    case (Inl err)
    with assms(4) have "\<not> (err = StatusError 429 \<and> n < MAX_RETRIES)" by auto
    with Inl show ?thesis by (auto simp add: r fetchWithRetry.simps[of server url n c] emit_def Let_def)
  qed
next
  case (Suc m)
  then have lt: "r < n" and m: "m = n - (r + 1)" by simp_all
  from Suc.prems(2) lt have s: "server r = Inl (StatusError 429)" by simp
  from lt assms(2) have rm: "r < MAX_RETRIES" by simp
  let ?c' = "emit (Sleep API_BACKOFF_MS) (emit (Primary url) c)"
  have ih: "fetchWithRetry server url (r + 1) ?c' =
        (server n, ?c'\<lparr>effects := effects ?c' @ Primary url #
                       concat (replicate (n - (r + 1)) [Sleep API_BACKOFF_MS, Primary url])\<rparr>)"
    using Suc.hyps(1)[OF m] lt Suc.prems(2) by simp
  have n: "n - r = Suc (n - (r + 1))" using lt by simp
  show ?case
    using s rm ih by (simp add: fetchWithRetry.simps[of server url r c] n emit_def Let_def)
qed

lemma fetchTopCoins_secondary_next:
  assumes "getApiData (t_start env) (cacheKey currency limit) c = None"
    and "fetchWithRetry (coingecko env) marketsUrl 0 c = (Inl e, c1)"
  shows "\<exists>es. effects (snd (fetchTopCoins k env currency limit c)) =
              effects c1 @ Secondary currenciesUrl # es"
proof -
  let ?c2 = "emit (Secondary currenciesUrl) c1"
  have "evolves ?c2 (snd (fetchTopCoins k env currency limit c))"
  proof (cases "moonpay env")
    case (Inr d)
    have "evolves ?c2 (snd (mapMoonPay k (t_resume env) d ?c2))"
      by (rule mapMoonPay_evolves)
    then show ?thesis
      using assms Inr
      by (auto simp: fetchTopCoins_def split_beta Let_def intro: evolves_trans[OF _ setApiData_evolves])
  next
    case (Inl e')
    have "evolves ?c2 (snd (getFallbackCoins k (t_resume env) ?c2))"
      by (rule getFallbackCoins_evolves)
    then show ?thesis
      using assms Inl by (simp add: fetchTopCoins_def Let_def)
  qed
  then obtain es where "effects (snd (fetchTopCoins k env currency limit c)) = effects ?c2 @ es"
    by (auto simp: evolves_def)
  then show ?thesis by (simp add: emit_def)
qed

text \<open>
  Claim C3, as the code has it. Of the failures of a request to the primary provider,
  only those with status 429 are retried: while the answers are 429, \<open>fetchWithRetry\<close>
  waits 2 seconds and asks again, up to 3 times after the first attempt. The answer
  number \<open>n\<close> that ends this, the first that is not a 429 or else the fourth, is the
  result, after \<open>n\<close> waits; so any other failure is the result at once (\<open>n = 0\<close>), with
  no wait and no retry. When the result is a failure, the next request of
  \<open>fetchTopCoins\<close> goes to the secondary provider.
\<close>

theorem retry_policy:
  assumes "n \<le> MAX_RETRIES"
    and "\<forall>i<n. coingecko env i = Inl (StatusError 429)"
    and "n = MAX_RETRIES \<or> coingecko env n \<noteq> Inl (StatusError 429)"
  shows "MAX_RETRIES = 3 \<and> API_BACKOFF_MS = 2000 \<and>
         fetchWithRetry (coingecko env) marketsUrl 0 c =
           (coingecko env n,
            c\<lparr>effects := effects c @ Primary marketsUrl #
                 concat (replicate n [Sleep 2000, Primary marketsUrl])\<rparr>) \<and>
         (getApiData (t_start env) (cacheKey currency limit) c = None \<and>
          (\<exists>e. coingecko env n = Inl e) \<longrightarrow>
          (\<exists>es. effects (snd (fetchTopCoins k env currency limit c)) =
                effects c @ Primary marketsUrl #
                concat (replicate n [Sleep 2000, Primary marketsUrl]) @
                Secondary currenciesUrl # es))"
proof -
  have f: "fetchWithRetry (coingecko env) marketsUrl 0 c =
           (coingecko env n,
            c\<lparr>effects := effects c @ Primary marketsUrl #
                 concat (replicate n [Sleep 2000, Primary marketsUrl])\<rparr>)"
    using fetchWithRetry_from[of 0 n "coingecko env" marketsUrl c] assms
    by (simp add: API_BACKOFF_MS_def)
  have "\<exists>es. effects (snd (fetchTopCoins k env currency limit c)) =
                effects c @ Primary marketsUrl #
                concat (replicate n [Sleep 2000, Primary marketsUrl]) @
                Secondary currenciesUrl # es"
    if "getApiData (t_start env) (cacheKey currency limit) c = None" "coingecko env n = Inl e" for e
    using fetchTopCoins_secondary_next[OF that(1) f[unfolded that(2)], of k] by simp
  with f show ?thesis by (auto simp: MAX_RETRIES_def API_BACKOFF_MS_def)
qed


theorem retry_policy_witness:
  "fetchWithRetry (\<lambda>i. if i < 2 then Inl (StatusError 429) else Inl (StatusError 503))
     marketsUrl 0 newCache =
   (Inl (StatusError 503) :: CoinData list response,
    newCache\<lparr>effects := [Primary marketsUrl, Sleep 2000, Primary marketsUrl, Sleep 2000,
                            Primary marketsUrl]\<rparr>)"
proof -
  let ?env = "\<lparr>t_start = 0, t_resume = 1,
               coingecko = (\<lambda>i. if i < 2 then Inl (StatusError 429) else Inl (StatusError 503)),
               moonpay = Inl NetworkError\<rparr>"
  have 1: "2 \<le> MAX_RETRIES" by (simp add: MAX_RETRIES_def)
  have 2: "\<forall>i<2. coingecko ?env i = Inl (StatusError 429)" by simp
  have 3: "2 = MAX_RETRIES \<or> coingecko ?env 2 \<noteq> Inl (StatusError 429)" by simp
  from retry_policy[OF 1 2 3, of newCache "''usd''" 5 "''key''"]
  show ?thesis by (simp add: newCache_def numeral_2_eq_2)
qed

text \<open>
  The claim as the specification words it fails for a failure that is not a 429: after
  a status 500 there is no wait and no second attempt; the request to the secondary
  provider follows the single request to the primary one.
\<close>

theorem no_retry_counterexample:
  "effects (snd (fetchTopCoins ''key''
      \<lparr>t_start = 0, t_resume = 1, coingecko = (\<lambda>i. Inl (StatusError 500)), moonpay = Inr []\<rparr>
      ''usd'' 5 newCache)) =
   [Primary marketsUrl, Secondary currenciesUrl]"
proof -
  have "fetchWithRetry (\<lambda>i. Inl (StatusError 500) :: CoinData list response) marketsUrl 0 newCache =
        (Inl (StatusError 500), newCache\<lparr>effects := effects newCache @ Primary marketsUrl #
           concat (replicate (0 - 0) [Sleep API_BACKOFF_MS, Primary marketsUrl])\<rparr>)"
    by (rule fetchWithRetry_from) simp_all
  then show ?thesis
    by (simp add: fetchTopCoins_def getApiData_def newCache_def emit_def setApiData_def Let_def)
qed

section \<open>Search\<close>

lemma mapSearch_length: "length (fst (mapSearch k now xs c)) = length xs"
  by (induction xs arbitrary: c) (simp_all add: split_beta)

text \<open>
  Claim C7. \<open>searchCryptocurrencies\<close> returns at most 15 records. For a query that is
  empty or only white space it returns the empty list before anything else happens:
  the cache, with its log of requests, is left as it was. When the request to the
  provider fails, the result is the empty list; there is no fallback list.
\<close>

theorem search_results:
  "length (fst (searchCryptocurrencies k now answer query c)) \<le> 15 \<and>
   (query = [] \<or> trim query = [] \<longrightarrow> searchCryptocurrencies k now answer query c = ([], c)) \<and>
   ((\<exists>e. answer = Inl e) \<longrightarrow> fst (searchCryptocurrencies k now answer query c) = [])"
  by (auto simp: searchCryptocurrencies_def Let_def mapSearch_length
      split: sum.splits option.splits)

lemma trim_spaces: "trim ''   '' = []"
  by code_simp

lemma trim_btc: "trim ''btc'' \<noteq> []"
  by code_simp

theorem search_results_witness:
  "searchCryptocurrencies ''key'' 0 (Inr (Some [])) ''   '' newCache = ([], newCache) \<and>
   searchCryptocurrencies ''key'' 0 (Inr (Some [])) [] newCache = ([], newCache) \<and>
   fst (searchCryptocurrencies ''key'' 0 (Inl NetworkError) ''btc'' newCache) = [] \<and>
   effects (snd (searchCryptocurrencies ''key'' 0 (Inl NetworkError) ''btc'' newCache)) =
     [Primary searchUrl]"
  using search_results[of "''key''" 0 "Inr (Some [])" "''   ''" newCache]
    search_results[of "''key''" 0 "Inr (Some [])" "[]" newCache]
    search_results[of "''key''" 0 "Inl NetworkError" "''btc''" newCache]
    trim_spaces trim_btc
  by (simp add: searchCryptocurrencies_def emit_def newCache_def)

section \<open>The scope of the rate-limit gate\<close>

lemma fetchTopCoins_primary_first:
  assumes "getApiData (t_start env) (cacheKey currency limit) c = None"
  shows "\<exists>es. effects (snd (fetchTopCoins k env currency limit c)) =
              effects c @ Primary marketsUrl # es"
proof -
  obtain r c1 where f: "fetchWithRetry (coingecko env) marketsUrl 0 c = (r, c1)"
    by (cases "fetchWithRetry (coingecko env) marketsUrl 0 c")
  obtain es where es: "effects c1 = effects c @ Primary marketsUrl # es"
    using fetchWithRetry_log[of "coingecko env" marketsUrl 0 c] f by auto
  have "\<exists>es'. effects (snd (fetchTopCoins k env currency limit c)) = effects c1 @ es'"
  proof (cases r)
    case (Inr d)
    have "evolves c1 (snd (mapCoinGecko k (t_resume env) d c1))"
      by (rule mapCoinGecko_evolves)
    then have "evolves c1 (snd (fetchTopCoins k env currency limit c))"
      using assms f Inr
      by (auto simp: fetchTopCoins_def split_beta Let_def intro: evolves_trans[OF _ setApiData_evolves])
    then show ?thesis by (simp add: evolves_def)
  next
    case (Inl e)
    from fetchTopCoins_secondary_next[OF assms f[unfolded Inl], of k]
    show ?thesis by auto
  qed
  then obtain es' where "effects (snd (fetchTopCoins k env currency limit c)) = effects c1 @ es'"
    by blast
  with es show ?thesis by simp
qed

text \<open>
  Claim C4, as the code has it. While the gate is active, \<open>shouldTryApiCall\<close> is false
  for every identifier and \<open>getCryptoImageUrl\<close> makes no request to the primary provider.
  \<open>fetchTopCoins\<close> does not look at the gate: on a cache miss its first request goes to
  the primary provider, gate or no gate, and when that fails the request to the
  secondary provider follows.
\<close>

theorem rate_limit_gate_scope:
  assumes "isRateLimited now c"
  shows "\<not> shouldTryApiCall now coinId c \<and>
         primaryRequests (snd (getCryptoImageUrl k now code c)) = primaryRequests c \<and>
         (getApiData (t_start env) (cacheKey currency limit) c = None \<longrightarrow>
            (\<exists>es. effects (snd (fetchTopCoins k env currency limit c)) =
                  effects c @ Primary marketsUrl # es) \<and>
            ((\<exists>e. fst (fetchWithRetry (coingecko env) marketsUrl 0 c) = Inl e) \<longrightarrow>
               Secondary currenciesUrl \<in> set (effects (snd (fetchTopCoins k env currency limit c)))))"
proof -
  have no: "\<not> shouldTryApiCall now x c" for x
    using assms by (simp add: shouldTryApiCall_def)
  have img: "primaryRequests (snd (getCryptoImageUrl k now code c)) = primaryRequests c"
    by (rule getCryptoImageUrl_no_request) (rule no)
  have sec: "Secondary currenciesUrl \<in> set (effects (snd (fetchTopCoins k env currency limit c)))"
    if miss: "getApiData (t_start env) (cacheKey currency limit) c = None"
      and fails: "fst (fetchWithRetry (coingecko env) marketsUrl 0 c) = Inl e" for e
  proof -
    obtain c1 where "fetchWithRetry (coingecko env) marketsUrl 0 c = (Inl e, c1)"
      using fails by (cases "fetchWithRetry (coingecko env) marketsUrl 0 c") auto
    from fetchTopCoins_secondary_next[OF miss this, of k] show ?thesis by auto
  qed
  from no img fetchTopCoins_primary_first sec show ?thesis by blast
qed

theorem rate_limit_gate_scope_witness:
  "isRateLimited 1000 (setRateLimited 0 True (Some (Finite 60)) newCache) \<and>
   \<not> shouldTryApiCall 1000 ''newcoin'' (setRateLimited 0 True (Some (Finite 60)) newCache) \<and>
   primaryRequests (snd (getCryptoImageUrl ''key'' 1000 (Some ''newcoin'')
      (setRateLimited 0 True (Some (Finite 60)) newCache))) = []"
proof -
  let ?c = "setRateLimited 0 True (Some (Finite 60)) newCache"
  have g: "isRateLimited 1000 ?c"
    by (simp add: isRateLimited_def setRateLimited_def newCache_def)
  from rate_limit_gate_scope[OF g, of "''newcoin''" "''key''" "Some ''newcoin''"]
  show ?thesis using g by (simp add: primaryRequests_def setRateLimited_def newCache_def)
qed

text \<open>
  The claim as the specification words it fails for \<open>fetchTopCoins\<close>: with the gate
  active until 60000 and the clock at 1000, a call on a cache miss sends its request to
  the primary provider.
\<close>

theorem gate_ignored_counterexample:
  "isRateLimited 1000 (setRateLimited 0 True (Some (Finite 60)) newCache) \<and>
   effects (snd (fetchTopCoins ''key''
      \<lparr>t_start = 1000, t_resume = 1001, coingecko = (\<lambda>i. Inr []), moonpay = Inr []\<rparr>
      ''usd'' 5 (setRateLimited 0 True (Some (Finite 60)) newCache))) =
   [Primary marketsUrl]"
proof -
  let ?c = "setRateLimited 0 True (Some (Finite 60)) newCache"
  have "fetchWithRetry (\<lambda>i. Inr [] :: CoinData list response) marketsUrl 0 ?c =
        (Inr [], ?c\<lparr>effects := effects ?c @ Primary marketsUrl #
           concat (replicate (0 - 0) [Sleep API_BACKOFF_MS, Primary marketsUrl])\<rparr>)"
    by (rule fetchWithRetry_from) simp_all
  then show ?thesis
    by (simp add: fetchTopCoins_def getApiData_def isRateLimited_def setRateLimited_def
        newCache_def emit_def setApiData_def Let_def)
qed

section \<open>The fallback list\<close>

lemma local_resolves:
  assumes "localsKept c" "toLowerCase x = x" "x \<noteq> []" "x \<noteq> ''godd''"
    and "localImageMap x = Some p"
  shows "fst (getCryptoImageUrl k now (Some x) c) = p"
proof -
  from assms(1,5) have "imageCache c x = None \<or> imageCache c x = Some p"
    unfolding localsKept_def by blast
  then show ?thesis
  proof
    assume "imageCache c x = None"
    then have "getCryptoImageUrl k now (Some x) c = (p, setImageUrl (toLowerCase x) p c)"
      using assms by (intro getCryptoImageUrl_local) simp_all
    then show ?thesis by simp
  next
    assume s: "imageCache c x = Some p"
    have "getCryptoImageUrl k now (Some x) c = (p, c)"
      using assms s localImageMap_nonempty[OF assms(5)]
      by (intro getCryptoImageUrl_cached) simp_all
    then show ?thesis by simp
  qed
qed

lemma fallback_ids_lower:
  "toLowerCase ''ethereum'' = ''ethereum''" "toLowerCase ''solana'' = ''solana''"
  "toLowerCase ''cardano'' = ''cardano''"
  by code_simp+

lemma fallback_ids_local:
  "localImageMap ''ethereum'' = Some ''/src/images/crypto/ethereum.png''"
  "localImageMap ''solana'' = Some ''/src/images/crypto/solana.png''"
  "localImageMap ''cardano'' = Some ''/src/images/crypto/cardano.png''"
  by (simp_all add: localImageMap_def)

lemma getFallbackCoins_ids:
  "map coin_id (fst (getFallbackCoins k now c)) =
     [''bitcoin'', ''ethereum'', ''solana'', ''cardano'', ''godsdollar'']"
  by (simp add: getFallbackCoins_def split_beta)

lemma getFallbackCoins_fixed:
  "map (image_update (\<lambda>_. [])) (fst (getFallbackCoins k now c)) =
   map (image_update (\<lambda>_. [])) (fst (getFallbackCoins k' now' c'))"
  by (simp add: getFallbackCoins_def split_beta)

lemma getFallbackCoins_images:
  assumes "localsKept c"
  shows "map image (take 4 (fst (getFallbackCoins k now c))) =
     [''/src/images/crypto/bitcoin.png'', ''/src/images/crypto/ethereum.png'',
      ''/src/images/crypto/solana.png'', ''/src/images/crypto/cardano.png'']"
proof -
  let ?c1 = "snd (getCryptoImageUrl k now (Some ''bitcoin'') c)"
  let ?c2 = "snd (getCryptoImageUrl k now (Some ''ethereum'') ?c1)"
  let ?c3 = "snd (getCryptoImageUrl k now (Some ''solana'') ?c2)"
  have k1: "localsKept ?c1" using assms by (rule getCryptoImageUrl_localsKept)
  then have k2: "localsKept ?c2" by (rule getCryptoImageUrl_localsKept)
  then have k3: "localsKept ?c3" by (rule getCryptoImageUrl_localsKept)
  have "fst (getCryptoImageUrl k now (Some ''bitcoin'') c) = ''/src/images/crypto/bitcoin.png''"
    using assms by (rule local_resolves) (simp_all add: toLowerCase_bitcoin localImageMap_bitcoin)
  moreover have "fst (getCryptoImageUrl k now (Some ''ethereum'') ?c1) = ''/src/images/crypto/ethereum.png''"
    using k1 by (rule local_resolves) (simp_all add: fallback_ids_lower fallback_ids_local)
  moreover have "fst (getCryptoImageUrl k now (Some ''solana'') ?c2) = ''/src/images/crypto/solana.png''"
    using k2 by (rule local_resolves) (simp_all add: fallback_ids_lower fallback_ids_local)
  moreover have "fst (getCryptoImageUrl k now (Some ''cardano'') ?c3) = ''/src/images/crypto/cardano.png''"
    using k3 by (rule local_resolves) (simp_all add: fallback_ids_lower fallback_ids_local)
  ultimately show ?thesis
    by (simp add: getFallbackCoins_def split_beta)
qed

text \<open>
  Claim C1. When \<open>fetchTopCoins\<close> finds nothing in the cache and both providers fail (the
  primary one with whatever retries it gets, then the secondary one), the result is the
  built-in list: five quotes, in the order bitcoin, ethereum, solana, cardano,
  godsdollar, with the fixed numbers of the source. All fields but the image are the
  same for every call; the images are what \<open>getCryptoImageUrl\<close> resolves, in a session
  the local paths for the first four. The list is never empty, and no exception
  reaches the caller: the outer \<open>catch\<close> returns the list, and the result of the model
  is a list in every case.
\<close>

theorem fetchTopCoins_fallback:
  assumes "getApiData (t_start env) (cacheKey currency limit) c = None"
    and "fst (fetchWithRetry (coingecko env) marketsUrl 0 c) = Inl e1"
    and "moonpay env = Inl e2"
  shows "map coin_id (fst (fetchTopCoins k env currency limit c)) =
           [''bitcoin'', ''ethereum'', ''solana'', ''cardano'', ''godsdollar''] \<and>
         length (fst (fetchTopCoins k env currency limit c)) = 5 \<and>
         fst (fetchTopCoins k env currency limit c) \<noteq> [] \<and>
         map (image_update (\<lambda>_. [])) (fst (fetchTopCoins k env currency limit c)) =
           map (image_update (\<lambda>_. [])) (fst (getFallbackCoins k' now' c')) \<and>
         (reachable k c \<longrightarrow>
            map image (take 4 (fst (fetchTopCoins k env currency limit c))) =
              [''/src/images/crypto/bitcoin.png'', ''/src/images/crypto/ethereum.png'',
               ''/src/images/crypto/solana.png'', ''/src/images/crypto/cardano.png''])"
proof -
  obtain c1 where f: "fetchWithRetry (coingecko env) marketsUrl 0 c = (Inl e1, c1)"
    using assms(2) by (cases "fetchWithRetry (coingecko env) marketsUrl 0 c") auto
  let ?c2 = "emit (Secondary currenciesUrl) c1"
  have eq: "fetchTopCoins k env currency limit c = getFallbackCoins k (t_resume env) ?c2"
    using assms(1,3) f by (simp add: fetchTopCoins_def Let_def)
  have ids: "map coin_id (fst (fetchTopCoins k env currency limit c)) =
           [''bitcoin'', ''ethereum'', ''solana'', ''cardano'', ''godsdollar'']"
    unfolding eq by (rule getFallbackCoins_ids)
  from arg_cong[OF ids, of length]
  have len: "length (fst (fetchTopCoins k env currency limit c)) = 5" by simp
  then have ne: "fst (fetchTopCoins k env currency limit c) \<noteq> []" by auto
  have fixed: "map (image_update (\<lambda>_. [])) (fst (fetchTopCoins k env currency limit c)) =
           map (image_update (\<lambda>_. [])) (fst (getFallbackCoins k' now' c'))"
    unfolding eq by (rule getFallbackCoins_fixed)
  have "map image (take 4 (fst (fetchTopCoins k env currency limit c))) =
              [''/src/images/crypto/bitcoin.png'', ''/src/images/crypto/ethereum.png'',
               ''/src/images/crypto/solana.png'', ''/src/images/crypto/cardano.png'']"
    if "reachable k c"
  proof -
    have "evolves c c1" using fetchWithRetry_evolves[of c "coingecko env" marketsUrl 0] f by simp
    then have "evolves c ?c2" using evolves_emit by (rule evolves_trans)
    with reachable_localsKept[OF that] have "localsKept ?c2" by (simp add: evolves_def)
    then show ?thesis unfolding eq by (rule getFallbackCoins_images)
  qed
  with ids len ne fixed show ?thesis by blast
qed

theorem fetchTopCoins_fallback_witness:
  "map coin_id (fst (fetchTopCoins ''key''
      \<lparr>t_start = 0, t_resume = 1, coingecko = (\<lambda>i. Inl NetworkError), moonpay = Inl (StatusError 500)\<rparr>
      ''usd'' 5 newCache)) =
     [''bitcoin'', ''ethereum'', ''solana'', ''cardano'', ''godsdollar''] \<and>
   map image (take 4 (fst (fetchTopCoins ''key''
      \<lparr>t_start = 0, t_resume = 1, coingecko = (\<lambda>i. Inl NetworkError), moonpay = Inl (StatusError 500)\<rparr>
      ''usd'' 5 newCache))) =
     [''/src/images/crypto/bitcoin.png'', ''/src/images/crypto/ethereum.png'',
      ''/src/images/crypto/solana.png'', ''/src/images/crypto/cardano.png'']"
proof -
  let ?env = "\<lparr>t_start = 0, t_resume = 1, coingecko = (\<lambda>i. Inl NetworkError),
               moonpay = Inl (StatusError 500)\<rparr> :: top_coins_env"
  have 1: "getApiData (t_start ?env) (cacheKey ''usd'' 5) newCache = None"
    by (simp add: getApiData_def newCache_def)
  have "fetchWithRetry (coingecko ?env) marketsUrl 0 newCache =
        (coingecko ?env 0, newCache\<lparr>effects := effects newCache @ Primary marketsUrl #
           concat (replicate (0 - 0) [Sleep API_BACKOFF_MS, Primary marketsUrl])\<rparr>)"
    by (rule fetchWithRetry_from) simp_all
  then have 2: "fst (fetchWithRetry (coingecko ?env) marketsUrl 0 newCache) = Inl NetworkError"
    by simp
  have 3: "moonpay ?env = Inl (StatusError 500)" by simp
  have r: "reachable ''key'' newCache" by (simp add: reachable_def)
  from fetchTopCoins_fallback[OF 1 2 3, of "''key''"] r show ?thesis by blast
qed

section \<open>The cache of API responses\<close>

lemma fetchTopCoins_hit:
  assumes "apiCache c (cacheKey currency limit) = Some entry"
    and "t_start env - timestamp entry < cacheExpiry"
  shows "fetchTopCoins k env currency limit c = (data entry, c)"
  using assms by (simp add: fetchTopCoins_def getApiData_def)

lemma fetchTopCoins_stores:
  assumes "getApiData (t_start env) (cacheKey currency limit) c = None"
    and "(\<exists>d. fst (fetchWithRetry (coingecko env) marketsUrl 0 c) = Inr d) \<or>
         (\<exists>d. moonpay env = Inr d)"
  shows "apiCache (snd (fetchTopCoins k env currency limit c)) (cacheKey currency limit) =
         Some \<lparr>data = fst (fetchTopCoins k env currency limit c), timestamp = t_resume env\<rparr>"
proof -
  obtain r c1 where f: "fetchWithRetry (coingecko env) marketsUrl 0 c = (r, c1)"
    by (cases "fetchWithRetry (coingecko env) marketsUrl 0 c")
  show ?thesis
  proof (cases r)
    case (Inr d)
    with assms(1) f show ?thesis
      by (simp add: fetchTopCoins_def Let_def split_beta setApiData_def)
  next
    case (Inl e)
    with assms(2) f obtain d where "moonpay env = Inr d" by auto
    with assms(1) f Inl show ?thesis
      by (simp add: fetchTopCoins_def Let_def split_beta setApiData_def)
  qed
qed

text \<open>
  Claim C2. For every currency and limit: after a call of \<open>fetchTopCoins\<close> that fetched
  its list from a provider (a cache miss, then an answer of the primary or of the
  secondary provider), a call with the same parameters that starts less than 5 minutes
  after the list was stored returns the same list and changes nothing: the cache is as
  before, and so is the log of requests. An entry that is 5 minutes old or older counts
  as absent: \<open>getApiData\<close> gives nothing, and the call sends a request to the primary
  provider first.
\<close>

theorem fetchTopCoins_cache:
  "(getApiData (t_start env1) (cacheKey currency limit) c = None \<and>
    ((\<exists>d. fst (fetchWithRetry (coingecko env1) marketsUrl 0 c) = Inr d) \<or>
     (\<exists>d. moonpay env1 = Inr d)) \<and>
    t_start env2 - t_resume env1 < cacheExpiry \<longrightarrow>
    fetchTopCoins k env2 currency limit (snd (fetchTopCoins k env1 currency limit c)) =
      (fst (fetchTopCoins k env1 currency limit c), snd (fetchTopCoins k env1 currency limit c))) \<and>
   (apiCache c (cacheKey currency limit) = Some entry \<and>
    cacheExpiry \<le> t_start env - timestamp entry \<longrightarrow>
    getApiData (t_start env) (cacheKey currency limit) c = None \<and>
    (\<exists>es. effects (snd (fetchTopCoins k env currency limit c)) =
          effects c @ Primary marketsUrl # es)) \<and>
   cacheExpiry = 5 * 60 * 1000"
proof -
  have a: "fetchTopCoins k env2 currency limit (snd (fetchTopCoins k env1 currency limit c)) =
      (fst (fetchTopCoins k env1 currency limit c), snd (fetchTopCoins k env1 currency limit c))"
    if miss: "getApiData (t_start env1) (cacheKey currency limit) c = None"
      and ok: "(\<exists>d. fst (fetchWithRetry (coingecko env1) marketsUrl 0 c) = Inr d) \<or>
               (\<exists>d. moonpay env1 = Inr d)"
      and fresh: "t_start env2 - t_resume env1 < cacheExpiry"
    using fetchTopCoins_hit[OF fetchTopCoins_stores[OF miss ok, of k], of env2 k] fresh by simp
  have b: "getApiData (t_start env) (cacheKey currency limit) c = None \<and>
    (\<exists>es. effects (snd (fetchTopCoins k env currency limit c)) =
          effects c @ Primary marketsUrl # es)"
    if old: "apiCache c (cacheKey currency limit) = Some entry"
      "cacheExpiry \<le> t_start env - timestamp entry"
  proof -
    from old have "getApiData (t_start env) (cacheKey currency limit) c = None"
      by (simp add: getApiData_def)
    with fetchTopCoins_primary_first[OF this, of k] show ?thesis by simp
  qed
  have c: "cacheExpiry = 5 * 60 * 1000" by (simp add: cacheExpiry_def)
  from a b c show ?thesis by blast
qed

theorem fetchTopCoins_cache_witness:
  "fetchTopCoins ''key''
     \<lparr>t_start = 299000, t_resume = 299500, coingecko = (\<lambda>i. Inl NetworkError),
       moonpay = Inl NetworkError\<rparr> ''usd'' 5
     (snd (fetchTopCoins ''key''
        \<lparr>t_start = 0, t_resume = 1000, coingecko = (\<lambda>i. Inr []), moonpay = Inl NetworkError\<rparr>
        ''usd'' 5 newCache)) =
   (fst (fetchTopCoins ''key''
        \<lparr>t_start = 0, t_resume = 1000, coingecko = (\<lambda>i. Inr []), moonpay = Inl NetworkError\<rparr>
        ''usd'' 5 newCache),
    snd (fetchTopCoins ''key''
        \<lparr>t_start = 0, t_resume = 1000, coingecko = (\<lambda>i. Inr []), moonpay = Inl NetworkError\<rparr>
        ''usd'' 5 newCache)) \<and>
   getApiData 300000 (cacheKey ''usd'' 5) (setApiData 0 (cacheKey ''usd'' 5) [] newCache) = None"
proof -
  let ?env1 = "\<lparr>t_start = 0, t_resume = 1000, coingecko = (\<lambda>i. Inr []),
                moonpay = Inl NetworkError\<rparr> :: top_coins_env"
  let ?env2 = "\<lparr>t_start = 299000, t_resume = 299500, coingecko = (\<lambda>i. Inl NetworkError),
                moonpay = Inl NetworkError\<rparr> :: top_coins_env"
  let ?env3 = "\<lparr>t_start = 300000, t_resume = 300500, coingecko = (\<lambda>i. Inl NetworkError),
                moonpay = Inl NetworkError\<rparr> :: top_coins_env"
  let ?c = "setApiData 0 (cacheKey ''usd'' 5) [] newCache"
  have 1: "getApiData (t_start ?env1) (cacheKey ''usd'' 5) newCache = None"
    by (simp add: getApiData_def newCache_def)
  have "fetchWithRetry (coingecko ?env1) marketsUrl 0 newCache =
        (coingecko ?env1 0, newCache\<lparr>effects := effects newCache @ Primary marketsUrl #
           concat (replicate (0 - 0) [Sleep API_BACKOFF_MS, Primary marketsUrl])\<rparr>)"
    by (rule fetchWithRetry_from) simp_all
  then have 2: "(\<exists>d. fst (fetchWithRetry (coingecko ?env1) marketsUrl 0 newCache) = Inr d) \<or>
     (\<exists>d. moonpay ?env1 = Inr d)"
    by simp
  have 3: "t_start ?env2 - t_resume ?env1 < cacheExpiry" by (simp add: cacheExpiry_def)
  have 4: "apiCache ?c (cacheKey ''usd'' 5) = Some \<lparr>data = [], timestamp = 0\<rparr>"
    by (simp add: setApiData_def)
  have 5: "cacheExpiry \<le> t_start ?env3 - timestamp \<lparr>data = [], timestamp = 0\<rparr>"
    by (simp add: cacheExpiry_def)
  from fetchTopCoins_cache[where ?env1.0 = ?env1 and currency = "''usd''" and limit = 5
      and c = newCache and ?env2.0 = ?env2 and k = "''key''"] 1 2 3
  have first: "fetchTopCoins ''key'' ?env2 ''usd'' 5 (snd (fetchTopCoins ''key'' ?env1 ''usd'' 5 newCache)) =
      (fst (fetchTopCoins ''key'' ?env1 ''usd'' 5 newCache),
       snd (fetchTopCoins ''key'' ?env1 ''usd'' 5 newCache))"
    by blast
  from fetchTopCoins_cache[where currency = "''usd''" and limit = 5 and c = ?c
      and entry = "\<lparr>data = [], timestamp = 0\<rparr>" and env = ?env3] 4 5
  have "getApiData (t_start ?env3) (cacheKey ''usd'' 5) ?c = None"
    by blast
  then have second: "getApiData 300000 (cacheKey ''usd'' 5) ?c = None"
    by simp
  from first second show ?thesis by (intro conjI)
qed

end
